theory Spec2Isabelle
  imports Complex_Main
begin

section \<open>Strings\<close>

text \<open>
  Go strings are modelled as lists of 8-bit characters. \<open>strings.TrimSpace\<close> and
  \<open>strings.ToUpper\<close> are modelled on ASCII text: the white space characters are
  tab, line feed, vertical tab, form feed, carriage return and space, and only the letters
  \<open>a\<close> to \<open>z\<close> change under \<open>ToUpper\<close>. Text outside ASCII (where Go works on
  Unicode code points) is outside this model.
\<close>

definition isSpace :: "char \<Rightarrow> bool" where
  "isSpace c = (let n = (of_char c :: nat) in (9 \<le> n \<and> n \<le> 13) \<or> n = 32)"

definition TrimSpace :: "string \<Rightarrow> string" where
  "TrimSpace s = rev (dropWhile isSpace (rev (dropWhile isSpace s)))"

definition upperChar :: "char \<Rightarrow> char" where
  "upperChar c =
     (let n = (of_char c :: nat) in if 97 \<le> n \<and> n \<le> 122 then char_of (n - 32) else c)"

definition ToUpper :: "string \<Rightarrow> string" where
  "ToUpper s = map upperChar s"

section \<open>config/config.go\<close>

definition MaxAllowedHistoryDays :: int where
  "MaxAllowedHistoryDays = 90"

definition SupportedCurrencyList :: "string list" where
  "SupportedCurrencyList = [''USD'', ''INR'', ''EUR'', ''JPY'', ''GBP'']"

text \<open>
  The global configuration variables that the core reads (\<open>config.ExchangeRateAPIKey\<close>,
  \<open>config.MaxHistoricalDays\<close>) and the sources of input from outside the process: the
  wall clock, the time zone of the host and the HTTP transport. \<open>clock n\<close> is the instant,
  in nanoseconds since the Unix epoch, that the \<open>n\<close>-th call of \<open>time.Now()\<close> returns.
  \<open>AddDate t years months days\<close> is the instant that the library call
  \<open>t.AddDate(years, months, days)\<close> returns for an instant \<open>t\<close> read from that clock:
  the library moves the calendar date of \<open>t\<close> in the time zone of the process and keeps
  the time of day, so its result depends on the time zone rules of the host (and, for very
  large arguments, on the machine arithmetic of the library); nothing is assumed about it
  here. \<open>transport n e\<close> is the outcome of the \<open>n\<close>-th call of \<open>HTTPClient.Get\<close>
  when it asks for endpoint \<open>e\<close>.
\<close>

datatype body =
    Unreadable
  | Malformed
  | ApiResp (Result: string) (ConversionRate: real)

datatype http_outcome =
    TransportFailed
  | Response (StatusCode: nat) (Body: body)

record env =
  ExchangeRateAPIKey :: string
  MaxHistoricalDays :: int
  clock :: "nat \<Rightarrow> int"
  AddDate :: "int \<Rightarrow> int \<Rightarrow> int \<Rightarrow> int \<Rightarrow> int"
  transport :: "nat \<Rightarrow> string \<Rightarrow> http_outcome"

definition IsSupportedCurrency :: "string \<Rightarrow> bool" where
  "IsSupportedCurrency code =
     (let cleanCode = ToUpper (TrimSpace code) in
      if cleanCode = [] then False else cleanCode \<in> set SupportedCurrencyList)"

definition GetSupportedCurrencies :: "string list" where
  "GetSupportedCurrencies = SupportedCurrencyList"

section \<open>Errors\<close>

text \<open>
  One constructor for each \<open>fmt.Errorf\<close> of the client and the service; the wrapping
  errors (\<open>%w\<close>) carry the error they wrap.
\<close>

datatype err =
    UnsupportedSource string
  | UnsupportedTarget string
  | NegativeAmount real
  | DateEmpty
  | InvalidDateFormat string
  | FutureDate string
  | DateTooFarInPast int
  | HttpReqFailed
  | ApiHttpStatus nat
  | ReadBodyFailed
  | JsonParseFailed
  | ApiError string
  | InvalidRate real
  | FailedAfterTries nat "err option"
  | FailedToGetExchangeRate err
  | FailedToFetchHistoricalRate err

section \<open>The state of the process\<close>

record rateEntry =
  exchangeRate :: real
  lastUpdated :: int

text \<open>
  \<open>rateData\<close> is the cache table. \<open>ticks\<close> and \<open>requests\<close> count the calls of
  \<open>time.Now()\<close> and of \<open>HTTPClient.Get\<close> made so far. \<open>trace\<close> records, oldest
  first, every access of the cache table, every call of \<open>RateClient.GetRate\<close> and every
  HTTP request.
\<close>

datatype event =
    CacheRead string
  | CacheWrite string real
  | ClientGetRate string string string
  | HttpGet string

record world =
  rateData :: "string \<rightharpoonup> rateEntry"
  ticks :: nat
  requests :: nat
  trace :: "event list"

definition NewWorld :: world where
  "NewWorld = \<lparr>rateData = Map.empty, ticks = 0, requests = 0, trace = []\<rparr>"

definition time_Now :: "env \<Rightarrow> world \<Rightarrow> int \<times> world" where
  "time_Now e w = (clock e (ticks w), w\<lparr>ticks := Suc (ticks w)\<rparr>)"

definition HTTPClient_Get :: "env \<Rightarrow> world \<Rightarrow> string \<Rightarrow> http_outcome \<times> world" where
  "HTTPClient_Get e w endpoint =
     (transport e (requests w) endpoint,
      w\<lparr>requests := Suc (requests w), trace := trace w @ [HttpGet endpoint]\<rparr>)"

section \<open>client: RateClient\<close>

definition buildEndpoint :: "env \<Rightarrow> string \<Rightarrow> string \<Rightarrow> string \<Rightarrow> string" where
  "buildEndpoint e fromCurrency toCurrency dt =
     ''/'' @ ExchangeRateAPIKey e @ ''/pair/'' @ fromCurrency @ ''/'' @ toCurrency @ ''/1''"

definition doAPICall ::
  "env \<Rightarrow> world \<Rightarrow> string \<Rightarrow> string \<Rightarrow> string \<Rightarrow> (err + real) \<times> world" where
  "doAPICall e w fromCurrency toCurrency dt =
     (let endpoint = buildEndpoint e fromCurrency toCurrency dt;
          (resp, w') = HTTPClient_Get e w endpoint
      in case resp of
           TransportFailed \<Rightarrow> (Inl HttpReqFailed, w')
         | Response status b \<Rightarrow>
             if status \<noteq> 200 then (Inl (ApiHttpStatus status), w')
             else (case b of
                     Unreadable \<Rightarrow> (Inl ReadBodyFailed, w')
                   | Malformed \<Rightarrow> (Inl JsonParseFailed, w')
                   | ApiResp result rate \<Rightarrow>
                       if result \<noteq> ''success'' then (Inl (ApiError result), w')
                       else if rate \<le> 0 then (Inl (InvalidRate rate), w')
                       else (Inr rate, w')))"

definition maxRetries :: nat where
  "maxRetries = 2"

text \<open>
  The retry loop of \<open>RateClient.GetRate\<close>, entered with the loop counter \<open>i\<close> and
  \<open>lastErr\<close>. The sleep between two attempts changes nothing but the time, which the
  clock of the environment accounts for.
\<close>

function GetRate_loop ::
  "env \<Rightarrow> world \<Rightarrow> string \<Rightarrow> string \<Rightarrow> string \<Rightarrow> nat \<Rightarrow> err option \<Rightarrow> (err + real) \<times> world" where
  "GetRate_loop e w fromCurrency toCurrency date i lastErr =
     (if i \<le> maxRetries then
        (case doAPICall e w fromCurrency toCurrency date of
           (Inr rate, w') \<Rightarrow> (Inr rate, w')
         | (Inl er, w') \<Rightarrow> GetRate_loop e w' fromCurrency toCurrency date (Suc i) (Some er))
      else (Inl (FailedAfterTries maxRetries lastErr), w))"
  by pat_completeness auto
termination
  by (relation "measure (\<lambda>(e, w, f, t, d, i, l). Suc maxRetries - i)") auto

declare GetRate_loop.simps [simp del]

definition RateClient_GetRate ::
  "env \<Rightarrow> world \<Rightarrow> string \<Rightarrow> string \<Rightarrow> string \<Rightarrow> (err + real) \<times> world" where
  "RateClient_GetRate e w fromCurrency toCurrency date =
     GetRate_loop e (w\<lparr>trace := trace w @ [ClientGetRate fromCurrency toCurrency date]\<rparr>)
       fromCurrency toCurrency date 1 None"

section \<open>cache: ExchangeRateCache\<close>

definition buildRateKey :: "string \<Rightarrow> string \<Rightarrow> string" where
  "buildRateKey fromCurrency toCurrency =
     (let fromClean = ToUpper (TrimSpace fromCurrency);
          toClean = ToUpper (TrimSpace toCurrency)
      in fromClean @ ''-'' @ toClean)"

definition ExchangeRateCache_GetRate ::
  "world \<Rightarrow> string \<Rightarrow> string \<Rightarrow> (real \<times> bool) \<times> world" where
  "ExchangeRateCache_GetRate w fromCurrency toCurrency =
     (let cacheKey = buildRateKey fromCurrency toCurrency;
          w' = w\<lparr>trace := trace w @ [CacheRead cacheKey]\<rparr>
      in case rateData w cacheKey of
           None \<Rightarrow> ((0, False), w')
         | Some entry \<Rightarrow> ((exchangeRate entry, True), w'))"

definition ExchangeRateCache_SetRate ::
  "env \<Rightarrow> world \<Rightarrow> string \<Rightarrow> string \<Rightarrow> real \<Rightarrow> world" where
  "ExchangeRateCache_SetRate e w fromCurrency toCurrency rate =
     (let cacheKey = buildRateKey fromCurrency toCurrency;
          (now, w') = time_Now e w
      in w'\<lparr>rateData := (rateData w')(cacheKey \<mapsto> \<lparr>exchangeRate = rate, lastUpdated = now\<rparr>),
            trace := trace w' @ [CacheWrite cacheKey rate]\<rparr>)"


text \<open>
  One sweep of the background refresh. The two nested \<open>range\<close> loops run over the
  supported currencies with their indices; the loop state holds the counters and the list
  of failed pairs that the sweep reports when it ends.
\<close>

record sweep =
  sw_world :: world
  successfulUpdates :: nat
  totalPairs :: nat
  failedPairs :: "string list"

definition refresh_pair :: "env \<Rightarrow> string \<Rightarrow> string \<Rightarrow> sweep \<Rightarrow> sweep" where
  "refresh_pair e fromCurrency toCurrency st =
     (let total = Suc (totalPairs st);
          pairIdentifier = fromCurrency @ ''-'' @ toCurrency
      in case RateClient_GetRate e (sw_world st) fromCurrency toCurrency [] of
           (Inl er, w') \<Rightarrow>
             st\<lparr>sw_world := w', totalPairs := total,
                failedPairs := failedPairs st @ [pairIdentifier]\<rparr>
         | (Inr rate, w') \<Rightarrow>
             st\<lparr>sw_world := ExchangeRateCache_SetRate e w' fromCurrency toCurrency rate,
                totalPairs := total, successfulUpdates := Suc (successfulUpdates st)\<rparr>)"

primrec refresh_inner ::
  "env \<Rightarrow> nat \<Rightarrow> string \<Rightarrow> (nat \<times> string) list \<Rightarrow> sweep \<Rightarrow> sweep" where
  "refresh_inner e i fromCurrency [] st = st"
| "refresh_inner e i fromCurrency (jt # rest) st =
     (if i = fst jt then refresh_inner e i fromCurrency rest st
      else refresh_inner e i fromCurrency rest (refresh_pair e fromCurrency (snd jt) st))"

primrec refresh_outer ::
  "env \<Rightarrow> string list \<Rightarrow> (nat \<times> string) list \<Rightarrow> sweep \<Rightarrow> sweep" where
  "refresh_outer e supportedCurrencies [] st = st"
| "refresh_outer e supportedCurrencies (ifc # rest) st =
     refresh_outer e supportedCurrencies rest
       (refresh_inner e (fst ifc) (snd ifc) (enumerate 0 supportedCurrencies) st)"

definition refreshAllRates :: "env \<Rightarrow> world \<Rightarrow> sweep" where
  "refreshAllRates e w =
     (let supportedCurrencies = GetSupportedCurrencies
      in refresh_outer e supportedCurrencies (enumerate 0 supportedCurrencies)
           \<lparr>sw_world = w, successfulUpdates = 0, totalPairs = 0, failedPairs = []\<rparr>)"

section \<open>Calendar dates\<close>

text \<open>
  \<open>time.Parse("2006-01-02", s)\<close> of the Go library: four digits, a hyphen, two digits, a
  hyphen, two digits and nothing else; the month between 1 and 12 and the day between 1
  and the number of days of that month. Its result is midnight UTC of that day. An
  instant is a number of nanoseconds since the Unix epoch.
\<close>

definition nsPerDay :: int where
  "nsPerDay = 86400 * 1000000000"

definition isDigit :: "char \<Rightarrow> bool" where
  "isDigit c = (let n = (of_char c :: nat) in 48 \<le> n \<and> n \<le> 57)"

definition digitVal :: "char \<Rightarrow> int" where
  "digitVal c = int (of_char c) - 48"

definition isLeap :: "int \<Rightarrow> bool" where
  "isLeap year = (year mod 4 = 0 \<and> (year mod 100 \<noteq> 0 \<or> year mod 400 = 0))"

definition daysIn :: "int \<Rightarrow> int \<Rightarrow> int" where
  "daysIn m year =
     (if m = 2 then (if isLeap year then 29 else 28)
      else if m = 4 \<or> m = 6 \<or> m = 9 \<or> m = 11 then 30 else 31)"

text \<open>The number of days from 1970-01-01 to the given day of the Gregorian calendar.\<close>

definition daysSinceEpoch :: "int \<Rightarrow> int \<Rightarrow> int \<Rightarrow> int" where
  "daysSinceEpoch year month day =
     (let y = (if month \<le> 2 then year - 1 else year);
          era = y div 400;
          yoe = y - era * 400;
          mp = (if month > 2 then month - 3 else month + 9);
          doy = (153 * mp + 2) div 5 + day - 1;
          doe = yoe * 365 + yoe div 4 - yoe div 100 + doy
      in era * 146097 + doe - 719468)"

definition time_Parse :: "string \<Rightarrow> int option" where
  "time_Parse s =
     (if length s \<noteq> 10 then None
      else if \<not> (isDigit (s ! 0) \<and> isDigit (s ! 1) \<and> isDigit (s ! 2) \<and> isDigit (s ! 3)
                \<and> s ! 4 = CHR ''-'' \<and> isDigit (s ! 5) \<and> isDigit (s ! 6)
                \<and> s ! 7 = CHR ''-'' \<and> isDigit (s ! 8) \<and> isDigit (s ! 9)) then None
      else
        (let year = digitVal (s ! 0) * 1000 + digitVal (s ! 1) * 100
                      + digitVal (s ! 2) * 10 + digitVal (s ! 3);
             month = digitVal (s ! 5) * 10 + digitVal (s ! 6);
             day = digitVal (s ! 8) * 10 + digitVal (s ! 9)
         in if month \<le> 0 \<or> 12 < month then None
            else if day < 1 \<or> day > daysIn month year then None
            else Some (daysSinceEpoch year month day * nsPerDay)))"

text \<open>
  The negation of a Go \<open>int\<close> (64 bits, two's complement): the least value is its own
  negation.
\<close>

definition neg_int64 :: "int \<Rightarrow> int" where
  "neg_int64 n = (- n + 2 ^ 63) mod 2 ^ 64 - 2 ^ 63"

section \<open>services: CurrencyExchangeService\<close>

definition validateCurrencyPair :: "string \<Rightarrow> string \<Rightarrow> err option" where
  "validateCurrencyPair fromCurrency toCurrency =
     (if \<not> IsSupportedCurrency fromCurrency then Some (UnsupportedSource fromCurrency)
      else if \<not> IsSupportedCurrency toCurrency then Some (UnsupportedTarget toCurrency)
      else None)"

definition validateAndParseDate :: "env \<Rightarrow> world \<Rightarrow> string \<Rightarrow> (err + int) \<times> world" where
  "validateAndParseDate e w dateStr =
     (if dateStr = [] then (Inl DateEmpty, w)
      else case time_Parse dateStr of
             None \<Rightarrow> (Inl (InvalidDateFormat dateStr), w)
           | Some parsedDate \<Rightarrow>
               (let (now, w') = time_Now e w
                in if parsedDate > now then (Inl (FutureDate dateStr), w')
                   else (Inr parsedDate, w')))"

definition validateHistoricalRange :: "env \<Rightarrow> world \<Rightarrow> int \<Rightarrow> err option \<times> world" where
  "validateHistoricalRange e w requestedDate =
     (let (now, w') = time_Now e w;
          oldestAllowedDate = AddDate e now 0 0 (neg_int64 (MaxHistoricalDays e))
      in if requestedDate < oldestAllowedDate
         then (Some (DateTooFarInPast (MaxHistoricalDays e)), w')
         else (None, w'))"

definition getExchangeRateForPair ::
  "env \<Rightarrow> world \<Rightarrow> string \<Rightarrow> string \<Rightarrow> string \<Rightarrow> (err + real) \<times> world" where
  "getExchangeRateForPair e w fromCurrency toCurrency dateStr =
     (if dateStr \<noteq> [] then
        (case validateAndParseDate e w dateStr of
           (Inl er, w1) \<Rightarrow> (Inl er, w1)
         | (Inr parsedDate, w1) \<Rightarrow>
             (case validateHistoricalRange e w1 parsedDate of
                (Some er, w2) \<Rightarrow> (Inl er, w2)
              | (None, w2) \<Rightarrow> RateClient_GetRate e w2 fromCurrency toCurrency dateStr))
      else
        (case ExchangeRateCache_GetRate w fromCurrency toCurrency of
           ((rate, True), w1) \<Rightarrow> (Inr rate, w1)
         | ((_, False), w1) \<Rightarrow>
             (case RateClient_GetRate e w1 fromCurrency toCurrency [] of
                (Inl er, w2) \<Rightarrow> (Inl er, w2)
              | (Inr rate, w2) \<Rightarrow>
                  (Inr rate, ExchangeRateCache_SetRate e w2 fromCurrency toCurrency rate))))"

definition ConvertCurrencyAmount ::
  "env \<Rightarrow> world \<Rightarrow> string \<Rightarrow> string \<Rightarrow> real \<Rightarrow> string \<Rightarrow> (err + real) \<times> world" where
  "ConvertCurrencyAmount e w fromCurrency toCurrency amt dt =
     (case validateCurrencyPair fromCurrency toCurrency of
        Some er \<Rightarrow> (Inl er, w)
      | None \<Rightarrow>
          if amt < 0 then (Inl (NegativeAmount amt), w)
          else if fromCurrency = toCurrency then (Inr amt, w)
          else (case getExchangeRateForPair e w fromCurrency toCurrency dt of
                  (Inl er, w') \<Rightarrow> (Inl (FailedToGetExchangeRate er), w')
                | (Inr rate, w') \<Rightarrow> (Inr (amt * rate), w')))"

definition GetHistoricalExchangeRate ::
  "env \<Rightarrow> world \<Rightarrow> string \<Rightarrow> string \<Rightarrow> string \<Rightarrow> (err + real) \<times> world" where
  "GetHistoricalExchangeRate e w fromCurrency toCurrency dateStr =
     (case validateCurrencyPair fromCurrency toCurrency of
        Some er \<Rightarrow> (Inl er, w)
      | None \<Rightarrow>
          if fromCurrency = toCurrency then (Inr 1, w)
          else (case validateAndParseDate e w dateStr of
                  (Inl er, w1) \<Rightarrow> (Inl er, w1)
                | (Inr parsedDate, w1) \<Rightarrow>
                    (case validateHistoricalRange e w1 parsedDate of
                       (Some er, w2) \<Rightarrow> (Inl er, w2)
                     | (None, w2) \<Rightarrow>
                         (case RateClient_GetRate e w2 fromCurrency toCurrency dateStr of
                            (Inl er, w3) \<Rightarrow> (Inl (FailedToFetchHistoricalRate er), w3)
                          | (Inr historicalRate, w3) \<Rightarrow> (Inr historicalRate, w3)))))"

section \<open>Observing a run\<close>

text \<open>
  The events of the trace that are accesses of the cache table, and those that are calls
  of the rate provider.
\<close>

definition is_cache_event :: "event \<Rightarrow> bool" where
  "is_cache_event ev =
     (case ev of CacheRead k \<Rightarrow> True | CacheWrite k r \<Rightarrow> True | _ \<Rightarrow> False)"

definition is_client_call :: "event \<Rightarrow> bool" where
  "is_client_call ev = (case ev of ClientGetRate f t d \<Rightarrow> True | _ \<Rightarrow> False)"

text \<open>
  \<open>api_answer e n f t\<close> is what \<open>doAPICall\<close> returns for the pair \<open>(f, t)\<close> when its
  request is the \<open>n\<close>-th HTTP request of the process: the fetched rate, or the error.
\<close>

definition api_answer :: "env \<Rightarrow> nat \<Rightarrow> string \<Rightarrow> string \<Rightarrow> err + real" where
  "api_answer e n fromCurrency toCurrency =
     fst (doAPICall e (NewWorld\<lparr>requests := n\<rparr>) fromCurrency toCurrency [])"


text \<open>
  The pairs that a sweep over the list \<open>cs\<close> visits, in the order of the two nested
  loops: every position of the list with every other position.
\<close>

definition sweep_pairs :: "string list \<Rightarrow> (string \<times> string) list" where
  "sweep_pairs cs =
     concat (map (\<lambda>ifc. map (\<lambda>jt. (snd ifc, snd jt))
                          (filter (\<lambda>jt. fst ifc \<noteq> fst jt) (enumerate 0 cs)))
                 (enumerate 0 cs))"

text \<open>
  The operations that change the state of the process, and a run of the process: the
  operations applied in turn, from a start with an empty cache table.
\<close>

datatype operation =
    Convert string string real string
  | Historical string string string
  | Refresh

fun serve :: "env \<Rightarrow> world \<Rightarrow> operation \<Rightarrow> world" where
  "serve e w (Convert fromCurrency toCurrency amt dt) =
     snd (ConvertCurrencyAmount e w fromCurrency toCurrency amt dt)"
| "serve e w (Historical fromCurrency toCurrency dateStr) =
     snd (GetHistoricalExchangeRate e w fromCurrency toCurrency dateStr)"
| "serve e w Refresh = sw_world (refreshAllRates e w)"

definition run :: "env \<Rightarrow> operation list \<Rightarrow> world" where
  "run e ops = foldl (serve e) NewWorld ops"

text \<open>
  \<open>fetched_since e w w'\<close>: going from state \<open>w\<close> to state \<open>w'\<close>, requests were only
  added, and every entry of the table of \<open>w'\<close> either was in the table of \<open>w\<close> or
  holds the rate that an API call made in between answered for a pair with that key.
\<close>

definition fetched_since :: "env \<Rightarrow> world \<Rightarrow> world \<Rightarrow> bool" where
  "fetched_since e w w' =
     (requests w \<le> requests w'
      \<and> (\<forall>k entry. rateData w' k = Some entry \<longrightarrow>
             rateData w k = Some entry
             \<or> (\<exists>n. requests w \<le> n \<and> n < requests w'
                   \<and> (\<exists>f t. k = buildRateKey f t
                          \<and> api_answer e n f t = Inr (exchangeRate entry)))))"

section \<open>Example environments\<close>

text \<open>
  Noon UTC of 2025-08-15, in nanoseconds since the Unix epoch.
\<close>

definition noon_2025_08_15 :: int where
  "noon_2025_08_15 = 1755259200 * 1000000000"

text \<open>
  An environment with the default look-back of 90 days, whose clock stands at noon of
  2025-08-15, whose time zone is UTC (moving the date by some days moves the instant by
  as many days of 24 hours), and whose provider answers requests for USD to EUR with the
  rate 0.86 and fails for every other request.
\<close>

definition example_env :: env where
  "example_env =
     \<lparr>ExchangeRateAPIKey = ''k'', MaxHistoricalDays = MaxAllowedHistoryDays,
      clock = (\<lambda>n. noon_2025_08_15),
      AddDate = (\<lambda>t years months days. t + days * nsPerDay),
      transport = (\<lambda>n ep. if ep = ''/k/pair/USD/EUR/1''
                             then Response 200 (ApiResp ''success'' (86 / 100))
                             else TransportFailed)\<rparr>"

text \<open>A state whose cache already holds a rate for USD to EUR.\<close>

definition cached_world :: world where
  "cached_world =
     NewWorld\<lparr>rateData := [''USD-EUR'' \<mapsto> \<lparr>exchangeRate = 1 / 2, lastUpdated = 0\<rparr>]\<rparr>"

text \<open>The same environment with the clock at midnight UTC of 2025-08-15.\<close>

definition midnight_env :: env where
  "midnight_env = example_env\<lparr>clock := (\<lambda>n. noon_2025_08_15 - 12 * 3600 * 1000000000)\<rparr>"


section \<open>Normalisation of currency codes\<close>

lemma upperChar_idem: "upperChar (upperChar c) = upperChar c"
  by (auto simp: upperChar_def Let_def)

lemma isSpace_upperChar: "isSpace (upperChar c) = isSpace c"
  by (auto simp: upperChar_def isSpace_def Let_def)

lemma dropWhile_map_upper:
  "dropWhile isSpace (map upperChar s) = map upperChar (dropWhile isSpace s)"
  by (induction s) (auto simp: isSpace_upperChar)

lemma TrimSpace_ToUpper: "TrimSpace (ToUpper s) = ToUpper (TrimSpace s)"
  by (simp add: TrimSpace_def ToUpper_def dropWhile_map_upper rev_map)

lemma ToUpper_idem: "ToUpper (ToUpper s) = ToUpper s"
  by (simp add: ToUpper_def upperChar_idem)

lemma dropWhile_end_head:
  assumes "ys = [] \<or> \<not> P (hd ys)"
  shows "dropWhile P (rev (dropWhile P (rev ys))) = rev (dropWhile P (rev ys))"
proof (cases "dropWhile P (rev ys) = []")
  case True
  show ?thesis unfolding True by simp
next
  case False
  define z where "z = rev (dropWhile P (rev ys))"
  have "rev ys = takeWhile P (rev ys) @ dropWhile P (rev ys)" by simp
  then have "ys = z @ rev (takeWhile P (rev ys))"
    unfolding z_def by (metis rev_append rev_rev_ident)
  moreover have "z \<noteq> []" using False by (simp add: z_def)
  ultimately have "hd z = hd ys" "ys \<noteq> []" by (metis hd_append2, metis append_is_Nil_conv)
  with assms have "\<not> P (hd z)" by simp
  with \<open>z \<noteq> []\<close> have "dropWhile P z = z" by (cases z) auto
  then show ?thesis by (simp add: z_def)
qed

lemma dropWhile_head: "dropWhile P s = [] \<or> \<not> P (hd (dropWhile P s))"
  by (metis hd_dropWhile)

lemma TrimSpace_idem: "TrimSpace (TrimSpace s) = TrimSpace s"
proof -
  have "dropWhile isSpace s = [] \<or> \<not> isSpace (hd (dropWhile isSpace s))"
    by (rule dropWhile_head)
  then have "dropWhile isSpace (rev (dropWhile isSpace (rev (dropWhile isSpace s))))
      = rev (dropWhile isSpace (rev (dropWhile isSpace s)))"
    by (rule dropWhile_end_head)
  then show ?thesis
    by (simp add: TrimSpace_def)
qed

lemma normalize_idem: "ToUpper (TrimSpace (ToUpper (TrimSpace s))) = ToUpper (TrimSpace s)"
  by (simp add: TrimSpace_ToUpper TrimSpace_idem ToUpper_idem)

lemma buildRateKey_normalize:
  "buildRateKey (ToUpper (TrimSpace f)) (ToUpper (TrimSpace t)) = buildRateKey f t"
  by (simp add: buildRateKey_def normalize_idem)

text \<open>
  Claim C10. The cache builds its key from the trimmed, upper-cased codes, so reading or
  writing the table with any spelling of a pair is the same operation as reading or
  writing it with the normalised codes: the results and the resulting states are equal.
\<close>

theorem cache_keys_normalization_invariant:
  "ExchangeRateCache_GetRate w fromCurrency toCurrency
     = ExchangeRateCache_GetRate w (ToUpper (TrimSpace fromCurrency)) (ToUpper (TrimSpace toCurrency))
   \<and> ExchangeRateCache_SetRate e w fromCurrency toCurrency r
     = ExchangeRateCache_SetRate e w (ToUpper (TrimSpace fromCurrency)) (ToUpper (TrimSpace toCurrency)) r
   \<and> buildRateKey fromCurrency toCurrency
     = ToUpper (TrimSpace fromCurrency) @ ''-'' @ ToUpper (TrimSpace toCurrency)"
  by (simp add: ExchangeRateCache_GetRate_def ExchangeRateCache_SetRate_def
      buildRateKey_normalize) (simp add: buildRateKey_def)


text \<open>Rewrite rules that evaluate the string functions on literals.\<close>

lemmas str_eval = ToUpper_def TrimSpace_def isSpace_def upperChar_def char_of_def bit_Suc_0_iff

section \<open>The rate client\<close>

lemma doAPICall_world:
  "snd (doAPICall e w f t d)
     = w\<lparr>requests := Suc (requests w), trace := trace w @ [HttpGet (buildEndpoint e f t d)]\<rparr>"
  by (simp add: doAPICall_def HTTPClient_Get_def Let_def
      split: http_outcome.splits body.splits)

lemma doAPICall_result:
  "(fst (doAPICall e w f t d) = Inr r)
     = (transport e (requests w) (buildEndpoint e f t d) = Response 200 (ApiResp ''success'' r)
        \<and> 0 < r)"
  by (auto simp add: doAPICall_def HTTPClient_Get_def Let_def
      split: http_outcome.splits body.splits)

lemma GetRate_loop_exhausted:
  "maxRetries < i \<Longrightarrow>
   GetRate_loop e w f t d i l = (Inl (FailedAfterTries maxRetries l), w)"
  by (simp add: GetRate_loop.simps)

lemma GetRate_loop_step:
  "i \<le> maxRetries \<Longrightarrow>
   GetRate_loop e w f t d i l =
     (case doAPICall e w f t d of
        (Inr rate, w') \<Rightarrow> (Inr rate, w')
      | (Inl er, w') \<Rightarrow> GetRate_loop e w' f t d (Suc i) (Some er))"
  by (subst GetRate_loop.simps) simp

lemma RateClient_GetRate_unroll:
  "RateClient_GetRate e w f t d =
     (case doAPICall e (w\<lparr>trace := trace w @ [ClientGetRate f t d]\<rparr>) f t d of
        (Inr r, w1) \<Rightarrow> (Inr r, w1)
      | (Inl e1, w1) \<Rightarrow>
          (case doAPICall e w1 f t d of
             (Inr r, w2) \<Rightarrow> (Inr r, w2)
           | (Inl e2, w2) \<Rightarrow> (Inl (FailedAfterTries 2 (Some e2)), w2)))"
  by (simp add: RateClient_GetRate_def GetRate_loop_step GetRate_loop_exhausted maxRetries_def
      split: prod.splits sum.splits)

lemma RateClient_GetRate_frame:
  assumes "RateClient_GetRate e w f t d = (res, w')"
  shows "rateData w' = rateData w" and "ticks w' = ticks w"
    and "requests w < requests w'" and "requests w' \<le> requests w + 2"
    and "filter is_cache_event (trace w') = filter is_cache_event (trace w)"
    and "filter is_client_call (trace w')
           = filter is_client_call (trace w) @ [ClientGetRate f t d]"
  using assms doAPICall_world [of e "w\<lparr>trace := trace w @ [ClientGetRate f t d]\<rparr>" f t d]
    doAPICall_world [of e "snd (doAPICall e (w\<lparr>trace := trace w @ [ClientGetRate f t d]\<rparr>) f t d)" f t d]
  by (auto simp add: RateClient_GetRate_unroll is_cache_event_def is_client_call_def
      split: prod.splits sum.splits)

lemma RateClient_GetRate_success:
  assumes "RateClient_GetRate e w f t d = (Inr r, w')"
  shows "0 < r \<and> (\<exists>n. requests w \<le> n \<and> n < requests w'
           \<and> transport e n (buildEndpoint e f t d) = Response 200 (ApiResp ''success'' r))"
proof -
  let ?w0 = "w\<lparr>trace := trace w @ [ClientGetRate f t d]\<rparr>"
  obtain r1 w1 where a1: "doAPICall e ?w0 f t d = (r1, w1)" by (cases "doAPICall e ?w0 f t d")
  obtain r2 w2 where a2: "doAPICall e w1 f t d = (r2, w2)" by (cases "doAPICall e w1 f t d")
  have w1: "w1 = ?w0\<lparr>requests := Suc (requests ?w0), trace := trace ?w0 @ [HttpGet (buildEndpoint e f t d)]\<rparr>"
    using doAPICall_world [of e ?w0 f t d] a1 by simp
  have w2: "w2 = w1\<lparr>requests := Suc (requests w1), trace := trace w1 @ [HttpGet (buildEndpoint e f t d)]\<rparr>"
    using doAPICall_world [of e w1 f t d] a2 by simp
  show ?thesis
  proof (cases r1)
    case (Inr x)
    with assms a1 have "x = r" "w' = w1" by (auto simp: RateClient_GetRate_unroll)
    moreover from Inr a1 have "fst (doAPICall e ?w0 f t d) = Inr x" by simp
    ultimately show ?thesis using w1 by (auto simp: doAPICall_result)
  next
    case (Inl x)
    with assms a1 a2 have "r2 = Inr r" "w' = w2"
      by (auto simp: RateClient_GetRate_unroll split: sum.splits)
    moreover from this a2 have "fst (doAPICall e w1 f t d) = Inr r" by simp
    ultimately have "0 < r" "w' = w2"
      "transport e (Suc (requests w)) (buildEndpoint e f t d) = Response 200 (ApiResp ''success'' r)"
      using w1 by (auto simp: doAPICall_result)
    moreover have "requests w2 = Suc (Suc (requests w))" using w1 w2 by simp
    ultimately show ?thesis
      by (intro conjI exI [of _ "Suc (requests w)"]) simp_all
  qed
qed

lemma doAPICall_fst_requests:
  "requests w = requests w' \<Longrightarrow> fst (doAPICall e w f t d) = fst (doAPICall e w' f t d')"
  by (simp add: doAPICall_def buildEndpoint_def HTTPClient_Get_def Let_def
      split: http_outcome.splits body.splits)

lemma RateClient_GetRate_fst:
  "fst (RateClient_GetRate e w f t d) =
     (case fst (doAPICall e w f t d) of
        Inr r \<Rightarrow> Inr r
      | Inl e1 \<Rightarrow>
          (case fst (doAPICall e (w\<lparr>requests := Suc (requests w)\<rparr>) f t d) of
             Inr r \<Rightarrow> Inr r
           | Inl e2 \<Rightarrow> Inl (FailedAfterTries 2 (Some e2))))"
proof -
  let ?w0 = "w\<lparr>trace := trace w @ [ClientGetRate f t d]\<rparr>"
  have a: "fst (doAPICall e ?w0 f t d) = fst (doAPICall e w f t d)"
    by (rule doAPICall_fst_requests) simp
  have b: "fst (doAPICall e (snd (doAPICall e ?w0 f t d)) f t d)
             = fst (doAPICall e (w\<lparr>requests := Suc (requests w)\<rparr>) f t d)"
    by (rule doAPICall_fst_requests) (simp add: doAPICall_world)
  show ?thesis
    using a b by (auto simp add: RateClient_GetRate_unroll split: prod.splits sum.splits)
qed

lemma RateClient_GetRate_requests:
  "requests (snd (RateClient_GetRate e w f t d)) =
     (case fst (doAPICall e w f t d) of
        Inr r \<Rightarrow> Suc (requests w) | Inl e1 \<Rightarrow> Suc (Suc (requests w)))"
proof -
  let ?w0 = "w\<lparr>trace := trace w @ [ClientGetRate f t d]\<rparr>"
  have a: "fst (doAPICall e ?w0 f t d) = fst (doAPICall e w f t d)"
    by (rule doAPICall_fst_requests) simp
  show ?thesis
    using a doAPICall_world [of e ?w0 f t d]
      doAPICall_world [of e "snd (doAPICall e ?w0 f t d)" f t d]
    by (auto simp add: RateClient_GetRate_unroll split: prod.splits sum.splits)
qed

text \<open>
  Claim C9. The endpoint that the rate client requests is built from the API key and the
  two currency codes only. For any two date strings the endpoint is the same, a single
  API call gives the same result and state, and \<open>RateClient.GetRate\<close> returns the same
  rate or error after the same number of HTTP requests.
\<close>

theorem provider_request_ignores_date:
  "buildEndpoint e fromCurrency toCurrency d1 = buildEndpoint e fromCurrency toCurrency d2
   \<and> doAPICall e w fromCurrency toCurrency d1 = doAPICall e w fromCurrency toCurrency d2
   \<and> fst (RateClient_GetRate e w fromCurrency toCurrency d1)
       = fst (RateClient_GetRate e w fromCurrency toCurrency d2)
   \<and> requests (snd (RateClient_GetRate e w fromCurrency toCurrency d1))
       = requests (snd (RateClient_GetRate e w fromCurrency toCurrency d2))"
proof -
  have ep: "buildEndpoint e fromCurrency toCurrency d1 = buildEndpoint e fromCurrency toCurrency d2"
    by (simp add: buildEndpoint_def)
  have call: "\<And>v. doAPICall e v fromCurrency toCurrency d1 = doAPICall e v fromCurrency toCurrency d2"
    by (simp add: doAPICall_def ep)
  show ?thesis
    unfolding RateClient_GetRate_fst RateClient_GetRate_requests call
    by (simp add: ep)
qed

section \<open>Validation of the amount and the same-currency shortcut\<close>

lemma supported_eval:
  "IsSupportedCurrency ''USD''" "IsSupportedCurrency ''EUR''" "IsSupportedCurrency ''usd''"
  "IsSupportedCurrency '' EUR ''"
  by (simp_all add: IsSupportedCurrency_def SupportedCurrencyList_def str_eval)

text \<open>
  Claim C7. With two supported currencies and a negative amount, the conversion fails with
  the negative-amount error whatever the cache holds and whatever the date argument is; the
  state is returned as it was, so nothing was fetched and nothing was written.
\<close>

theorem negative_amount_rejected:
  "IsSupportedCurrency fromCurrency \<Longrightarrow> IsSupportedCurrency toCurrency \<Longrightarrow> amt < 0 \<Longrightarrow>
   ConvertCurrencyAmount e w fromCurrency toCurrency amt dt = (Inl (NegativeAmount amt), w)"
  by (simp add: ConvertCurrencyAmount_def validateCurrencyPair_def)

theorem negative_amount_rejected_witness:
  "ConvertCurrencyAmount example_env NewWorld ''USD'' ''EUR'' (- 1) []
     = (Inl (NegativeAmount (- 1)), NewWorld)"
  using negative_amount_rejected [of "''USD''" "''EUR''" "- 1" example_env NewWorld "[]"]
  by (simp add: supported_eval)

text \<open>
  When the two codes are the same string, the conversion returns the amount and leaves
  the state as it was.
\<close>

lemma same_code_identity:
  "IsSupportedCurrency c \<Longrightarrow> 0 \<le> amt \<Longrightarrow>
   ConvertCurrencyAmount e w c c amt dt = (Inr amt, w)"
  by (simp add: ConvertCurrencyAmount_def validateCurrencyPair_def)

text \<open>Rewrite rules that evaluate a run in a concrete environment.\<close>

lemmas world_eval = NewWorld_def example_env_def HTTPClient_Get_def doAPICall_def
  buildEndpoint_def RateClient_GetRate_unroll ExchangeRateCache_GetRate_def
  ExchangeRateCache_SetRate_def time_Now_def buildRateKey_def

text \<open>
  Claim C3. The shortcut for equal currencies compares the two arguments as they were
  given, not their normalised forms. With \<open>usd\<close> and \<open>USD\<close> the conversion reads
  the cache under the key \<open>USD-USD\<close>, calls the provider twice and, in the example
  environment, fails instead of returning the amount.
\<close>

theorem same_currency_other_spelling_fetches:
  "ConvertCurrencyAmount example_env NewWorld ''usd'' ''USD'' 5 []
     = (Inl (FailedToGetExchangeRate (FailedAfterTries 2 (Some HttpReqFailed))),
        \<lparr>rateData = Map.empty, ticks = 0, requests = 2,
         trace = [CacheRead ''USD-USD'', ClientGetRate ''usd'' ''USD'' [],
                  HttpGet ''/k/pair/usd/USD/1'', HttpGet ''/k/pair/usd/USD/1'']\<rparr>)"
  by (simp add: ConvertCurrencyAmount_def validateCurrencyPair_def supported_eval
      getExchangeRateForPair_def world_eval str_eval)

section \<open>The latest path\<close>

lemma getExchangeRateForPair_hit:
  "rateData w (buildRateKey f t) = Some entry \<Longrightarrow>
   getExchangeRateForPair e w f t []
     = (Inr (exchangeRate entry), w\<lparr>trace := trace w @ [CacheRead (buildRateKey f t)]\<rparr>)"
  by (simp add: getExchangeRateForPair_def ExchangeRateCache_GetRate_def)

lemma getExchangeRateForPair_miss:
  "rateData w (buildRateKey f t) = None \<Longrightarrow>
   getExchangeRateForPair e w f t []
     = (case RateClient_GetRate e (w\<lparr>trace := trace w @ [CacheRead (buildRateKey f t)]\<rparr>) f t [] of
          (Inl er, w2) \<Rightarrow> (Inl er, w2)
        | (Inr rate, w2) \<Rightarrow> (Inr rate, ExchangeRateCache_SetRate e w2 f t rate))"
  by (simp add: getExchangeRateForPair_def ExchangeRateCache_GetRate_def)

lemma GetRate_after_SetRate:
  "fst (ExchangeRateCache_GetRate (ExchangeRateCache_SetRate e w f t rate) f t) = (rate, True)"
  by (simp add: ExchangeRateCache_GetRate_def ExchangeRateCache_SetRate_def time_Now_def Let_def)

lemma ConvertCurrencyAmount_resolves:
  "IsSupportedCurrency f \<Longrightarrow> IsSupportedCurrency t \<Longrightarrow> f \<noteq> t \<Longrightarrow> 0 \<le> amt \<Longrightarrow>
   ConvertCurrencyAmount e w f t amt dt
     = (case getExchangeRateForPair e w f t dt of
          (Inl er, w') \<Rightarrow> (Inl (FailedToGetExchangeRate er), w')
        | (Inr rate, w') \<Rightarrow> (Inr (amt * rate), w'))"
  by (simp add: ConvertCurrencyAmount_def validateCurrencyPair_def)

text \<open>
  Claim C1. For two supported, different codes, a non-negative amount and the empty date:
  on a cache hit the conversion uses the cached rate and the only event is the cache
  read (no provider call); on a miss with a successful provider call the fetched rate is
  written with \<open>SetRate\<close> before the result is returned, and a following \<open>GetRate\<close>
  finds that rate; on a miss with a failed provider call the error is returned (wrapped
  by the conversion) and the cache table is as before.
\<close>

theorem latest_rate_cache_write_through:
  assumes "IsSupportedCurrency f" and "IsSupportedCurrency t" and "f \<noteq> t" and "0 \<le> amt"
  shows
    "(\<forall>entry. rateData w (buildRateKey f t) = Some entry \<longrightarrow>
        getExchangeRateForPair e w f t []
          = (Inr (exchangeRate entry), w\<lparr>trace := trace w @ [CacheRead (buildRateKey f t)]\<rparr>)
        \<and> ConvertCurrencyAmount e w f t amt []
          = (Inr (amt * exchangeRate entry),
             w\<lparr>trace := trace w @ [CacheRead (buildRateKey f t)]\<rparr>))
     \<and> (\<forall>rate w2.
          rateData w (buildRateKey f t) = None
          \<and> RateClient_GetRate e (w\<lparr>trace := trace w @ [CacheRead (buildRateKey f t)]\<rparr>) f t []
              = (Inr rate, w2) \<longrightarrow>
          getExchangeRateForPair e w f t []
            = (Inr rate, ExchangeRateCache_SetRate e w2 f t rate)
          \<and> ConvertCurrencyAmount e w f t amt []
            = (Inr (amt * rate), ExchangeRateCache_SetRate e w2 f t rate)
          \<and> fst (ExchangeRateCache_GetRate (ExchangeRateCache_SetRate e w2 f t rate) f t)
            = (rate, True))
     \<and> (\<forall>er w2.
          rateData w (buildRateKey f t) = None
          \<and> RateClient_GetRate e (w\<lparr>trace := trace w @ [CacheRead (buildRateKey f t)]\<rparr>) f t []
              = (Inl er, w2) \<longrightarrow>
          getExchangeRateForPair e w f t [] = (Inl er, w2)
          \<and> ConvertCurrencyAmount e w f t amt [] = (Inl (FailedToGetExchangeRate er), w2)
          \<and> rateData w2 = rateData w)"
proof (intro conjI allI impI)
  fix entry assume "rateData w (buildRateKey f t) = Some entry"
  then show "getExchangeRateForPair e w f t []
          = (Inr (exchangeRate entry), w\<lparr>trace := trace w @ [CacheRead (buildRateKey f t)]\<rparr>)"
    and "ConvertCurrencyAmount e w f t amt []
          = (Inr (amt * exchangeRate entry),
             w\<lparr>trace := trace w @ [CacheRead (buildRateKey f t)]\<rparr>)"
    using assms by (simp_all add: ConvertCurrencyAmount_resolves getExchangeRateForPair_hit)
next
  fix rate w2
  assume "rateData w (buildRateKey f t) = None
          \<and> RateClient_GetRate e (w\<lparr>trace := trace w @ [CacheRead (buildRateKey f t)]\<rparr>) f t []
              = (Inr rate, w2)"
  then show "getExchangeRateForPair e w f t []
            = (Inr rate, ExchangeRateCache_SetRate e w2 f t rate)"
    and "ConvertCurrencyAmount e w f t amt []
            = (Inr (amt * rate), ExchangeRateCache_SetRate e w2 f t rate)"
    using assms by (simp_all add: ConvertCurrencyAmount_resolves getExchangeRateForPair_miss)
  show "fst (ExchangeRateCache_GetRate (ExchangeRateCache_SetRate e w2 f t rate) f t)
            = (rate, True)"
    by (rule GetRate_after_SetRate)
next
  fix er w2
  assume a: "rateData w (buildRateKey f t) = None
          \<and> RateClient_GetRate e (w\<lparr>trace := trace w @ [CacheRead (buildRateKey f t)]\<rparr>) f t []
              = (Inl er, w2)"
  then show "getExchangeRateForPair e w f t [] = (Inl er, w2)"
    and "ConvertCurrencyAmount e w f t amt [] = (Inl (FailedToGetExchangeRate er), w2)"
    using assms by (simp_all add: ConvertCurrencyAmount_resolves getExchangeRateForPair_miss)
  from a show "rateData w2 = rateData w"
    using RateClient_GetRate_frame(1) [of e _ f t "[]" "Inl er" w2] by fastforce
qed

lemma key_eval: "buildRateKey ''USD'' ''EUR'' = ''USD-EUR''" "buildRateKey ''EUR'' ''USD'' = ''EUR-USD''"
  by (simp_all add: buildRateKey_def str_eval)

theorem latest_rate_cache_write_through_witness:
  "ConvertCurrencyAmount example_env cached_world ''USD'' ''EUR'' 100 []
     = (Inr 50, cached_world\<lparr>trace := [CacheRead ''USD-EUR'']\<rparr>)
   \<and> fst (ConvertCurrencyAmount example_env NewWorld ''USD'' ''EUR'' 100 []) = Inr 86
   \<and> fst (ExchangeRateCache_GetRate
            (snd (ConvertCurrencyAmount example_env NewWorld ''USD'' ''EUR'' 100 []))
            ''USD'' ''EUR'') = (86 / 100, True)
   \<and> fst (ConvertCurrencyAmount example_env NewWorld ''EUR'' ''USD'' 100 [])
       = Inl (FailedToGetExchangeRate (FailedAfterTries 2 (Some HttpReqFailed)))
   \<and> rateData (snd (ConvertCurrencyAmount example_env NewWorld ''EUR'' ''USD'' 100 []))
       = Map.empty"
proof -
  have ne: "''USD'' \<noteq> ''EUR''" "''EUR'' \<noteq> ''USD''" by simp_all
  have amt: "(0::real) \<le> 100" by simp
  note hit = latest_rate_cache_write_through
      [OF supported_eval(1) supported_eval(2) ne(1) amt, of cached_world example_env]
  note miss = latest_rate_cache_write_through
      [OF supported_eval(1) supported_eval(2) ne(1) amt, of NewWorld example_env]
  note fail = latest_rate_cache_write_through
      [OF supported_eval(2) supported_eval(1) ne(2) amt, of NewWorld example_env]
  have h1: "rateData cached_world (buildRateKey ''USD'' ''EUR'')
              = Some \<lparr>exchangeRate = 1 / 2, lastUpdated = 0\<rparr>"
    by (simp add: cached_world_def key_eval NewWorld_def)
  have h2: "rateData NewWorld (buildRateKey ''USD'' ''EUR'') = None
      \<and> RateClient_GetRate example_env
           (NewWorld\<lparr>trace := trace NewWorld @ [CacheRead (buildRateKey ''USD'' ''EUR'')]\<rparr>)
           ''USD'' ''EUR'' []
         = (Inr (86 / 100),
            \<lparr>rateData = Map.empty, ticks = 0, requests = 1,
             trace = [CacheRead ''USD-EUR'', ClientGetRate ''USD'' ''EUR'' [],
                      HttpGet ''/k/pair/USD/EUR/1'']\<rparr>)"
    by (simp add: world_eval str_eval)
  have h3: "rateData NewWorld (buildRateKey ''EUR'' ''USD'') = None
      \<and> RateClient_GetRate example_env
           (NewWorld\<lparr>trace := trace NewWorld @ [CacheRead (buildRateKey ''EUR'' ''USD'')]\<rparr>)
           ''EUR'' ''USD'' []
         = (Inl (FailedAfterTries 2 (Some HttpReqFailed)),
            \<lparr>rateData = Map.empty, ticks = 0, requests = 2,
             trace = [CacheRead ''EUR-USD'', ClientGetRate ''EUR'' ''USD'' [],
                      HttpGet ''/k/pair/EUR/USD/1'', HttpGet ''/k/pair/EUR/USD/1'']\<rparr>)"
    by (simp add: world_eval str_eval)
  from hit h1 have c1: "ConvertCurrencyAmount example_env cached_world ''USD'' ''EUR'' 100 []
      = (Inr (100 * exchangeRate \<lparr>exchangeRate = 1 / 2, lastUpdated = 0\<rparr>),
         cached_world\<lparr>trace := trace cached_world @ [CacheRead (buildRateKey ''USD'' ''EUR'')]\<rparr>)"
    by blast
  from miss h2 have c2: "ConvertCurrencyAmount example_env NewWorld ''USD'' ''EUR'' 100 []
      = (Inr (100 * (86 / 100)),
         ExchangeRateCache_SetRate example_env
           \<lparr>rateData = Map.empty, ticks = 0, requests = 1,
             trace = [CacheRead ''USD-EUR'', ClientGetRate ''USD'' ''EUR'' [],
                      HttpGet ''/k/pair/USD/EUR/1'']\<rparr> ''USD'' ''EUR'' (86 / 100))"
    and c2': "fst (ExchangeRateCache_GetRate (ExchangeRateCache_SetRate example_env
           \<lparr>rateData = Map.empty, ticks = 0, requests = 1,
             trace = [CacheRead ''USD-EUR'', ClientGetRate ''USD'' ''EUR'' [],
                      HttpGet ''/k/pair/USD/EUR/1'']\<rparr> ''USD'' ''EUR'' (86 / 100)) ''USD'' ''EUR'')
         = (86 / 100, True)"
    by blast+
  from fail h3 have c3: "ConvertCurrencyAmount example_env NewWorld ''EUR'' ''USD'' 100 []
      = (Inl (FailedToGetExchangeRate (FailedAfterTries 2 (Some HttpReqFailed))),
         \<lparr>rateData = Map.empty, ticks = 0, requests = 2,
             trace = [CacheRead ''EUR-USD'', ClientGetRate ''EUR'' ''USD'' [],
                      HttpGet ''/k/pair/EUR/USD/1'', HttpGet ''/k/pair/EUR/USD/1'']\<rparr>)"
    by blast
  show ?thesis
    unfolding c1 c2 c3 using c2'
    by (simp add: key_eval cached_world_def NewWorld_def)
qed

section \<open>The historical path\<close>

lemma validateAndParseDate_frame:
  "validateAndParseDate e w d = (res, w') \<Longrightarrow>
   rateData w' = rateData w \<and> requests w' = requests w \<and> trace w' = trace w"
  by (auto simp add: validateAndParseDate_def time_Now_def Let_def
      split: if_splits option.splits)

lemma validateHistoricalRange_frame:
  "validateHistoricalRange e w p = (res, w') \<Longrightarrow>
   rateData w' = rateData w \<and> requests w' = requests w \<and> trace w' = trace w"
  by (auto simp add: validateHistoricalRange_def time_Now_def Let_def split: if_splits)

lemma doAPICall_rateData:
  "doAPICall e (w\<lparr>rateData := m\<rparr>) f t d
     = (fst (doAPICall e w f t d), (snd (doAPICall e w f t d))\<lparr>rateData := m\<rparr>)"
  by (simp add: doAPICall_def HTTPClient_Get_def Let_def
      split: http_outcome.splits body.splits)

lemma RateClient_GetRate_rateData:
  "RateClient_GetRate e (w\<lparr>rateData := m\<rparr>) f t d
     = (fst (RateClient_GetRate e w f t d), (snd (RateClient_GetRate e w f t d))\<lparr>rateData := m\<rparr>)"
proof -
  let ?w0 = "w\<lparr>trace := trace w @ [ClientGetRate f t d]\<rparr>"
  obtain r1 w1 where a1: "doAPICall e ?w0 f t d = (r1, w1)"
    by (cases "doAPICall e ?w0 f t d")
  obtain r2 w2 where a2: "doAPICall e w1 f t d = (r2, w2)"
    by (cases "doAPICall e w1 f t d")
  have b1: "doAPICall e (?w0\<lparr>rateData := m\<rparr>) f t d = (r1, w1\<lparr>rateData := m\<rparr>)"
    using a1 by (simp add: doAPICall_rateData)
  have b2: "doAPICall e (w1\<lparr>rateData := m\<rparr>) f t d = (r2, w2\<lparr>rateData := m\<rparr>)"
    using a2 by (simp add: doAPICall_rateData)
  have sw: "w\<lparr>rateData := m\<rparr>\<lparr>trace := trace (w\<lparr>rateData := m\<rparr>) @ [ClientGetRate f t d]\<rparr>
              = ?w0\<lparr>rateData := m\<rparr>"
    by simp
  show ?thesis
    unfolding RateClient_GetRate_unroll sw b1 a1
    using a2 b2 by (cases r1; cases r2) simp_all
qed

lemma validateAndParseDate_rateData:
  "validateAndParseDate e (w\<lparr>rateData := m\<rparr>) d
     = (fst (validateAndParseDate e w d), (snd (validateAndParseDate e w d))\<lparr>rateData := m\<rparr>)"
  by (simp add: validateAndParseDate_def time_Now_def Let_def split: option.splits)

lemma validateHistoricalRange_rateData:
  "validateHistoricalRange e (w\<lparr>rateData := m\<rparr>) p
     = (fst (validateHistoricalRange e w p), (snd (validateHistoricalRange e w p))\<lparr>rateData := m\<rparr>)"
  by (simp add: validateHistoricalRange_def time_Now_def Let_def)

text \<open>
  The shape of every run of \<open>GetHistoricalExchangeRate\<close>: either it stops in the
  validation, with the trace and the request counter as they were, or it ends with a call
  of the rate client from a state with that trace and that counter.
\<close>

lemma GetHistoricalExchangeRate_cases:
  obtains (stopped) er w' where "GetHistoricalExchangeRate e w f t d = (er, w')"
      and "trace w' = trace w" and "requests w' = requests w"
      and "\<And>m. GetHistoricalExchangeRate e (w\<lparr>rateData := m\<rparr>) f t d = (er, w'\<lparr>rateData := m\<rparr>)"
  | (fetched) w2 r3 w3 where "RateClient_GetRate e w2 f t d = (r3, w3)"
      and "trace w2 = trace w" and "requests w2 = requests w"
      and "GetHistoricalExchangeRate e w f t d
             = (case r3 of Inl er \<Rightarrow> Inl (FailedToFetchHistoricalRate er) | Inr r \<Rightarrow> Inr r, w3)"
      and "\<And>m. GetHistoricalExchangeRate e (w\<lparr>rateData := m\<rparr>) f t d
             = (case r3 of Inl er \<Rightarrow> Inl (FailedToFetchHistoricalRate er) | Inr r \<Rightarrow> Inr r,
                w3\<lparr>rateData := m\<rparr>)"
proof (cases "validateCurrencyPair f t = None \<and> f \<noteq> t")
  case False
  then have "GetHistoricalExchangeRate e w f t d
       = (case validateCurrencyPair f t of Some er \<Rightarrow> Inl er | None \<Rightarrow> Inr 1, w)"
    and "\<And>m. GetHistoricalExchangeRate e (w\<lparr>rateData := m\<rparr>) f t d
       = (case validateCurrencyPair f t of Some er \<Rightarrow> Inl er | None \<Rightarrow> Inr 1, w\<lparr>rateData := m\<rparr>)"
    by (auto simp add: GetHistoricalExchangeRate_def split: option.splits)
  then show ?thesis using stopped [of _ w] by simp
next
  case True
  obtain r1 w1 where a1: "validateAndParseDate e w d = (r1, w1)"
    by (cases "validateAndParseDate e w d")
  have b1: "\<And>m. validateAndParseDate e (w\<lparr>rateData := m\<rparr>) d = (r1, w1\<lparr>rateData := m\<rparr>)"
    using a1 by (simp add: validateAndParseDate_rateData)
  have f1: "trace w1 = trace w" "requests w1 = requests w"
    using validateAndParseDate_frame [OF a1] by simp_all
  show ?thesis
  proof (cases r1)
    case (Inl er)
    have "GetHistoricalExchangeRate e w f t d = (Inl er, w1)"
      and "\<And>m. GetHistoricalExchangeRate e (w\<lparr>rateData := m\<rparr>) f t d = (Inl er, w1\<lparr>rateData := m\<rparr>)"
      using True a1 b1 Inl by (simp_all add: GetHistoricalExchangeRate_def)
    then show ?thesis using stopped [of _ w1] f1 by simp
  next
    case (Inr p)
    obtain r2 w2 where a2: "validateHistoricalRange e w1 p = (r2, w2)"
      by (cases "validateHistoricalRange e w1 p")
    have b2: "\<And>m. validateHistoricalRange e (w1\<lparr>rateData := m\<rparr>) p = (r2, w2\<lparr>rateData := m\<rparr>)"
      using a2 by (simp add: validateHistoricalRange_rateData)
    have f2: "trace w2 = trace w" "requests w2 = requests w"
      using validateHistoricalRange_frame [OF a2] f1 by simp_all
    show ?thesis
    proof (cases r2)
      case (Some er)
      have "GetHistoricalExchangeRate e w f t d = (Inl er, w2)"
        and "\<And>m. GetHistoricalExchangeRate e (w\<lparr>rateData := m\<rparr>) f t d = (Inl er, w2\<lparr>rateData := m\<rparr>)"
        using True a1 b1 Inr a2 b2 Some by (simp_all add: GetHistoricalExchangeRate_def)
      then show ?thesis using stopped [of _ w2] f2 by simp
    next
      case None
      obtain r3 w3 where a3: "RateClient_GetRate e w2 f t d = (r3, w3)"
        by (cases "RateClient_GetRate e w2 f t d")
      have b3: "\<And>m. RateClient_GetRate e (w2\<lparr>rateData := m\<rparr>) f t d = (r3, w3\<lparr>rateData := m\<rparr>)"
        using a3 by (simp add: RateClient_GetRate_rateData)
      have "GetHistoricalExchangeRate e w f t d
             = (case r3 of Inl er \<Rightarrow> Inl (FailedToFetchHistoricalRate er) | Inr r \<Rightarrow> Inr r, w3)"
        and "\<And>m. GetHistoricalExchangeRate e (w\<lparr>rateData := m\<rparr>) f t d
             = (case r3 of Inl er \<Rightarrow> Inl (FailedToFetchHistoricalRate er) | Inr r \<Rightarrow> Inr r,
                w3\<lparr>rateData := m\<rparr>)"
        using True a1 b1 Inr a2 b2 None a3 b3
        by (simp_all add: GetHistoricalExchangeRate_def split: sum.splits)
      then show ?thesis using fetched [OF a3] f2 by simp
    qed
  qed
qed

lemma GetHistoricalExchangeRate_rateData:
  "GetHistoricalExchangeRate e (w\<lparr>rateData := m\<rparr>) f t d
     = (fst (GetHistoricalExchangeRate e w f t d),
        (snd (GetHistoricalExchangeRate e w f t d))\<lparr>rateData := m\<rparr>)"
  by (cases rule: GetHistoricalExchangeRate_cases [of e w f t d]) simp_all

lemma GetHistoricalExchangeRate_frame:
  "rateData (snd (GetHistoricalExchangeRate e w f t d)) = rateData w
   \<and> filter is_cache_event (trace (snd (GetHistoricalExchangeRate e w f t d)))
       = filter is_cache_event (trace w)"
proof -
  have "snd (GetHistoricalExchangeRate e (w\<lparr>rateData := rateData w\<rparr>) f t d)
          = (snd (GetHistoricalExchangeRate e w f t d))\<lparr>rateData := rateData w\<rparr>"
    by (simp only: GetHistoricalExchangeRate_rateData snd_conv)
  then have "snd (GetHistoricalExchangeRate e w f t d)
          = (snd (GetHistoricalExchangeRate e w f t d))\<lparr>rateData := rateData w\<rparr>"
    by simp
  then have "rateData (snd (GetHistoricalExchangeRate e w f t d))
          = rateData ((snd (GetHistoricalExchangeRate e w f t d))\<lparr>rateData := rateData w\<rparr>)"
    by simp
  then have r: "rateData (snd (GetHistoricalExchangeRate e w f t d)) = rateData w"
    by simp
  have "filter is_cache_event (trace (snd (GetHistoricalExchangeRate e w f t d)))
       = filter is_cache_event (trace w)"
  proof (cases rule: GetHistoricalExchangeRate_cases [of e w f t d])
    case (stopped er w')
    then show ?thesis by simp
  next
    case (fetched w2 r3 w3)
    then show ?thesis using RateClient_GetRate_frame(5) [OF fetched(1)] by simp
  qed
  with r show ?thesis by simp
qed

text \<open>
  Claim C5. \<open>GetHistoricalExchangeRate\<close> leaves the cache table as it was, adds no cache
  access to the trace, and returns the same result whatever the cache table holds. When
  the validation succeeds it returns what \<open>RateClient.GetRate\<close> returns (an error is
  wrapped), and the run has exactly one more provider call and at least one more HTTP
  request than before: as this holds in every state, a repeated call fetches again.
\<close>

theorem historical_path_bypasses_cache:
  "rateData (snd (GetHistoricalExchangeRate e w f t d)) = rateData w
   \<and> filter is_cache_event (trace (snd (GetHistoricalExchangeRate e w f t d)))
       = filter is_cache_event (trace w)
   \<and> fst (GetHistoricalExchangeRate e (w\<lparr>rateData := m\<rparr>) f t d)
       = fst (GetHistoricalExchangeRate e w f t d)
   \<and> (\<forall>p w1 w2.
         validateCurrencyPair f t = None \<and> f \<noteq> t
         \<and> validateAndParseDate e w d = (Inr p, w1)
         \<and> validateHistoricalRange e w1 p = (None, w2) \<longrightarrow>
         GetHistoricalExchangeRate e w f t d
           = (case RateClient_GetRate e w2 f t d of
                (Inl er, w3) \<Rightarrow> (Inl (FailedToFetchHistoricalRate er), w3)
              | (Inr historicalRate, w3) \<Rightarrow> (Inr historicalRate, w3))
         \<and> filter is_client_call (trace (snd (GetHistoricalExchangeRate e w f t d)))
             = filter is_client_call (trace w) @ [ClientGetRate f t d]
         \<and> requests w < requests (snd (GetHistoricalExchangeRate e w f t d)))"
proof (intro conjI allI impI)
  show "rateData (snd (GetHistoricalExchangeRate e w f t d)) = rateData w"
    and "filter is_cache_event (trace (snd (GetHistoricalExchangeRate e w f t d)))
       = filter is_cache_event (trace w)"
    using GetHistoricalExchangeRate_frame [of e w f t d] by simp_all
  show "fst (GetHistoricalExchangeRate e (w\<lparr>rateData := m\<rparr>) f t d)
       = fst (GetHistoricalExchangeRate e w f t d)"
    by (simp add: GetHistoricalExchangeRate_rateData)
next
  fix p w1 w2
  assume a: "validateCurrencyPair f t = None \<and> f \<noteq> t
         \<and> validateAndParseDate e w d = (Inr p, w1)
         \<and> validateHistoricalRange e w1 p = (None, w2)"
  then show eq: "GetHistoricalExchangeRate e w f t d
           = (case RateClient_GetRate e w2 f t d of
                (Inl er, w3) \<Rightarrow> (Inl (FailedToFetchHistoricalRate er), w3)
              | (Inr historicalRate, w3) \<Rightarrow> (Inr historicalRate, w3))"
    by (simp add: GetHistoricalExchangeRate_def)
  obtain r3 w3 where c: "RateClient_GetRate e w2 f t d = (r3, w3)"
    by (cases "RateClient_GetRate e w2 f t d")
  have w3: "snd (GetHistoricalExchangeRate e w f t d) = w3"
    using eq c by (simp split: sum.splits)
  from a have f1: "requests w1 = requests w \<and> trace w1 = trace w"
    using validateAndParseDate_frame by blast
  from a have f2: "requests w2 = requests w1 \<and> trace w2 = trace w1"
    using validateHistoricalRange_frame by blast
  show "filter is_client_call (trace (snd (GetHistoricalExchangeRate e w f t d)))
             = filter is_client_call (trace w) @ [ClientGetRate f t d]"
    using RateClient_GetRate_frame(6) [OF c] f1 f2 w3 by simp
  show "requests w < requests (snd (GetHistoricalExchangeRate e w f t d))"
    using RateClient_GetRate_frame(3) [OF c] f1 f2 w3 by simp
qed

lemmas date_eval = time_Parse_def isDigit_def digitVal_def daysIn_def isLeap_def
  daysSinceEpoch_def nsPerDay_def validateAndParseDate_def validateHistoricalRange_def
  neg_int64_def noon_2025_08_15_def MaxAllowedHistoryDays_def validateCurrencyPair_def

theorem historical_path_bypasses_cache_witness:
  "fst (GetHistoricalExchangeRate example_env NewWorld ''USD'' ''EUR'' ''2025-08-01'')
     = Inr (86 / 100)
   \<and> requests (snd (GetHistoricalExchangeRate example_env NewWorld ''USD'' ''EUR'' ''2025-08-01'')) = 1
   \<and> requests (snd (GetHistoricalExchangeRate example_env
        (snd (GetHistoricalExchangeRate example_env NewWorld ''USD'' ''EUR'' ''2025-08-01''))
        ''USD'' ''EUR'' ''2025-08-01'')) = 2"
proof -
  let ?d = "''2025-08-01''"
  let ?p = "1754006400 * 1000000000 :: int"
  let ?w3 = "\<lparr>rateData = Map.empty, ticks = 2, requests = 1,
              trace = [ClientGetRate ''USD'' ''EUR'' ?d, HttpGet ''/k/pair/USD/EUR/1'']\<rparr>"
  have p: "time_Parse ?d = Some ?p"
    by (simp add: date_eval)
  have v: "validateCurrencyPair ''USD'' ''EUR'' = None \<and> ''USD'' \<noteq> ''EUR''"
    by (simp add: validateCurrencyPair_def supported_eval)
  have h1: "validateAndParseDate example_env NewWorld ?d = (Inr ?p, NewWorld\<lparr>ticks := 1\<rparr>)
      \<and> validateHistoricalRange example_env (NewWorld\<lparr>ticks := 1\<rparr>) ?p
          = (None, NewWorld\<lparr>ticks := 2\<rparr>)"
    by (simp add: validateAndParseDate_def validateHistoricalRange_def p time_Now_def
        example_env_def NewWorld_def neg_int64_def noon_2025_08_15_def nsPerDay_def
        MaxAllowedHistoryDays_def)
  have g1: "RateClient_GetRate example_env (NewWorld\<lparr>ticks := 2\<rparr>) ''USD'' ''EUR'' ?d
              = (Inr (86 / 100), ?w3)"
    by (simp add: world_eval Let_def)
  have "GetHistoricalExchangeRate example_env NewWorld ''USD'' ''EUR'' ?d
      = (case RateClient_GetRate example_env (NewWorld\<lparr>ticks := 2\<rparr>) ''USD'' ''EUR'' ?d of
           (Inl er, w3) \<Rightarrow> (Inl (FailedToFetchHistoricalRate er), w3)
         | (Inr historicalRate, w3) \<Rightarrow> (Inr historicalRate, w3))"
    using historical_path_bypasses_cache
      [of example_env NewWorld "''USD''" "''EUR''" ?d Map.empty] v h1
    by blast
  then have c1: "GetHistoricalExchangeRate example_env NewWorld ''USD'' ''EUR'' ?d
      = (Inr (86 / 100), ?w3)"
    using g1 by simp
  have h2: "validateAndParseDate example_env ?w3 ?d = (Inr ?p, ?w3\<lparr>ticks := 3\<rparr>)
      \<and> validateHistoricalRange example_env (?w3\<lparr>ticks := 3\<rparr>) ?p
          = (None, ?w3\<lparr>ticks := 4\<rparr>)"
    by (simp add: validateAndParseDate_def validateHistoricalRange_def p time_Now_def
        example_env_def neg_int64_def noon_2025_08_15_def nsPerDay_def
        MaxAllowedHistoryDays_def)
  have g2: "RateClient_GetRate example_env (?w3\<lparr>ticks := 4\<rparr>) ''USD'' ''EUR'' ?d
      = (Inr (86 / 100),
         \<lparr>rateData = Map.empty, ticks = 4, requests = 2,
          trace = [ClientGetRate ''USD'' ''EUR'' ?d, HttpGet ''/k/pair/USD/EUR/1'',
                   ClientGetRate ''USD'' ''EUR'' ?d, HttpGet ''/k/pair/USD/EUR/1'']\<rparr>)"
    by (simp add: world_eval Let_def)
  have "GetHistoricalExchangeRate example_env ?w3 ''USD'' ''EUR'' ?d
      = (case RateClient_GetRate example_env (?w3\<lparr>ticks := 4\<rparr>) ''USD'' ''EUR'' ?d of
           (Inl er, w3) \<Rightarrow> (Inl (FailedToFetchHistoricalRate er), w3)
         | (Inr historicalRate, w3) \<Rightarrow> (Inr historicalRate, w3))"
    using historical_path_bypasses_cache
      [of example_env ?w3 "''USD''" "''EUR''" ?d Map.empty] v h2
    by blast
  then have c2: "requests (snd (GetHistoricalExchangeRate example_env ?w3 ''USD'' ''EUR'' ?d)) = 2"
    using g2 by simp
  show ?thesis
    unfolding c1 using c2 by simp
qed

section \<open>Malformed dates\<close>

text \<open>
  Claim C6, as amended. For two supported, different codes and a date string that
  \<open>time.Parse\<close> rejects, the historical lookup fails and returns the state as it was
  (no clock read, no provider call): with the format error when the string is not empty,
  and with the separate empty-date error when it is empty.
\<close>

theorem malformed_date_rejected:
  "IsSupportedCurrency f \<Longrightarrow> IsSupportedCurrency t \<Longrightarrow> f \<noteq> t \<Longrightarrow> time_Parse d = None \<Longrightarrow>
   GetHistoricalExchangeRate e w f t d
     = (Inl (if d = [] then DateEmpty else InvalidDateFormat d), w)"
  by (simp add: GetHistoricalExchangeRate_def validateCurrencyPair_def validateAndParseDate_def)

theorem malformed_date_rejected_witness:
  "GetHistoricalExchangeRate example_env NewWorld ''USD'' ''EUR'' ''2025-13-40''
     = (Inl (InvalidDateFormat ''2025-13-40''), NewWorld)
   \<and> GetHistoricalExchangeRate example_env NewWorld ''USD'' ''EUR'' ''not-a-date''
     = (Inl (InvalidDateFormat ''not-a-date''), NewWorld)
   \<and> GetHistoricalExchangeRate example_env NewWorld ''USD'' ''EUR'' ''2025-02-29''
     = (Inl (InvalidDateFormat ''2025-02-29''), NewWorld)
   \<and> GetHistoricalExchangeRate example_env NewWorld ''USD'' ''EUR'' ''2025-8-1''
     = (Inl (InvalidDateFormat ''2025-8-1''), NewWorld)"
proof -
  have ne: "''USD'' \<noteq> ''EUR''" by simp
  note r = malformed_date_rejected [OF supported_eval(1) supported_eval(2) ne,
      of _ example_env NewWorld]
  have p: "time_Parse ''2025-13-40'' = None" "time_Parse ''not-a-date'' = None"
    "time_Parse ''2025-02-29'' = None" "time_Parse ''2025-8-1'' = None"
    by (simp_all add: date_eval)
  show ?thesis
    using r [OF p(1)] r [OF p(2)] r [OF p(3)] r [OF p(4)] by simp
qed

text \<open>
  The empty date string does not get the format error: the service answers it with its
  own error, before any parsing.
\<close>

theorem empty_date_is_not_a_format_error:
  "GetHistoricalExchangeRate example_env NewWorld ''USD'' ''EUR'' [] = (Inl DateEmpty, NewWorld)
   \<and> fst (GetHistoricalExchangeRate example_env NewWorld ''USD'' ''EUR'' [])
       \<noteq> Inl (InvalidDateFormat [])"
  by (simp add: GetHistoricalExchangeRate_def validateCurrencyPair_def validateAndParseDate_def
      supported_eval)

section \<open>The date range\<close>

lemma time_Parse_Nil: "time_Parse [] = None"
  by (simp add: time_Parse_def)

lemma GetHistoricalExchangeRate_parsed:
  assumes "IsSupportedCurrency f" and "IsSupportedCurrency t" and "f \<noteq> t"
    and "time_Parse d = Some p"
  shows "GetHistoricalExchangeRate e w f t d =
     (if p > clock e (ticks w) then (Inl (FutureDate d), w\<lparr>ticks := Suc (ticks w)\<rparr>)
      else if p < AddDate e (clock e (Suc (ticks w))) 0 0 (neg_int64 (MaxHistoricalDays e))
        then (Inl (DateTooFarInPast (MaxHistoricalDays e)), w\<lparr>ticks := Suc (Suc (ticks w))\<rparr>)
      else (case RateClient_GetRate e (w\<lparr>ticks := Suc (Suc (ticks w))\<rparr>) f t d of
              (Inl er, w3) \<Rightarrow> (Inl (FailedToFetchHistoricalRate er), w3)
            | (Inr historicalRate, w3) \<Rightarrow> (Inr historicalRate, w3)))"
proof -
  have "d \<noteq> []" using assms(4) time_Parse_Nil by auto
  then show ?thesis
    using assms
    by (simp add: GetHistoricalExchangeRate_def validateCurrencyPair_def
        validateAndParseDate_def validateHistoricalRange_def time_Now_def)
qed

text \<open>
  Claim C4, as amended. For two supported, different codes and a date string that parses
  to the instant \<open>p\<close> (midnight UTC of its day), let \<open>now1\<close> and \<open>now2\<close> be the two
  clock readings of the call and let the cutoff be what \<open>AddDate(0, 0, -N)\<close> returns
  for \<open>now2\<close>, with \<open>N\<close> the configured look-back. In every time zone: the date fails
  with the future-date error when \<open>p\<close> is after \<open>now1\<close>; otherwise it fails with the
  out-of-range error when \<open>p\<close> is before the cutoff, and is accepted (the provider is
  called) when it is not, the cutoff itself included.

  Where the cutoff is \<open>N\<close> days of 24 hours before \<open>now2\<close> (as in UTC), \<open>N\<close> is not
  negative, the date is day number \<open>dn\<close> and both clock readings fall on day number
  \<open>today\<close> (UTC), this gives: a date after today fails with the future-date error; a
  date later than \<open>N\<close> days before today and not after today is accepted; the date exactly
  \<open>N\<close> days before today is accepted only when the clock stands at midnight UTC, and
  fails with the out-of-range error at any later time of the day; every older date fails
  with the out-of-range error.
\<close>

theorem historical_date_window:
  fixes e :: env and w :: world
  assumes "IsSupportedCurrency f" and "IsSupportedCurrency t" and "f \<noteq> t"
    and "time_Parse d = Some p"
  defines "now1 \<equiv> clock e (ticks w)"
    and "now2 \<equiv> clock e (Suc (ticks w))"
  defines "cutoff \<equiv> AddDate e now2 0 0 (neg_int64 (MaxHistoricalDays e))"
    and "future \<equiv>
      GetHistoricalExchangeRate e w f t d = (Inl (FutureDate d), w\<lparr>ticks := Suc (ticks w)\<rparr>)"
    and "accepted \<equiv>
      GetHistoricalExchangeRate e w f t d
        = (case RateClient_GetRate e (w\<lparr>ticks := Suc (Suc (ticks w))\<rparr>) f t d of
             (Inl er, w3) \<Rightarrow> (Inl (FailedToFetchHistoricalRate er), w3)
           | (Inr historicalRate, w3) \<Rightarrow> (Inr historicalRate, w3))"
    and "out_of_range \<equiv>
      GetHistoricalExchangeRate e w f t d
        = (Inl (DateTooFarInPast (MaxHistoricalDays e)), w\<lparr>ticks := Suc (Suc (ticks w))\<rparr>)"
  shows
    "(now1 < p \<longrightarrow> future)
     \<and> (p \<le> now1 \<and> p < cutoff \<longrightarrow> out_of_range)
     \<and> (p \<le> now1 \<and> cutoff \<le> p \<longrightarrow> accepted)
     \<and> (cutoff = now2 - MaxHistoricalDays e * nsPerDay \<and> 0 \<le> MaxHistoricalDays e
          \<and> p = dn * nsPerDay
          \<and> today * nsPerDay \<le> now1 \<and> now1 < (today + 1) * nsPerDay
          \<and> today * nsPerDay \<le> now2 \<and> now2 < (today + 1) * nsPerDay \<longrightarrow>
          (today < dn \<longrightarrow> future)
          \<and> (today - MaxHistoricalDays e < dn \<and> dn \<le> today \<longrightarrow> accepted)
          \<and> (dn = today - MaxHistoricalDays e \<longrightarrow>
               (if now2 = today * nsPerDay then accepted else out_of_range))
          \<and> (dn < today - MaxHistoricalDays e \<longrightarrow> out_of_range))"
proof -
  note eq = GetHistoricalExchangeRate_parsed [OF assms(1-4), of e w,
      folded now1_def now2_def, folded cutoff_def]
  have general: "(now1 < p \<longrightarrow> future)
     \<and> (p \<le> now1 \<and> p < cutoff \<longrightarrow> out_of_range)
     \<and> (p \<le> now1 \<and> cutoff \<le> p \<longrightarrow> accepted)"
    unfolding future_def accepted_def out_of_range_def eq by auto
  have special: "(today < dn \<longrightarrow> future)
          \<and> (today - MaxHistoricalDays e < dn \<and> dn \<le> today \<longrightarrow> accepted)
          \<and> (dn = today - MaxHistoricalDays e \<longrightarrow>
               (if now2 = today * nsPerDay then accepted else out_of_range))
          \<and> (dn < today - MaxHistoricalDays e \<longrightarrow> out_of_range)"
    if c: "cutoff = now2 - MaxHistoricalDays e * nsPerDay" and m: "0 \<le> MaxHistoricalDays e"
      and p: "p = dn * nsPerDay"
      and lo1: "today * nsPerDay \<le> now1" and hi1: "now1 < (today + 1) * nsPerDay"
      and lo2: "today * nsPerDay \<le> now2" and hi2: "now2 < (today + 1) * nsPerDay"
  proof -
    let ?m = "MaxHistoricalDays e"
    have ns: "nsPerDay = 86400000000000" by (simp add: nsPerDay_def)
    have fut: "now1 < p" if "today < dn"
    proof -
      from that have "(today + 1) * nsPerDay \<le> dn * nsPerDay"
        by (intro mult_right_mono) (simp_all add: ns)
      with hi1 p show ?thesis by simp
    qed
    have nofut: "p \<le> now1" if "dn \<le> today"
    proof -
      from that have "dn * nsPerDay \<le> today * nsPerDay"
        by (intro mult_right_mono) (simp_all add: ns)
      with lo1 p show ?thesis by simp
    qed
    have inside: "cutoff \<le> p" if "today - ?m < dn"
    proof -
      from that have "(today + 1 - ?m) * nsPerDay \<le> dn * nsPerDay"
        by (intro mult_right_mono) (simp_all add: ns)
      with hi2 c p show ?thesis by (simp add: algebra_simps)
    qed
    have edge: "(cutoff \<le> p) = (now2 = today * nsPerDay)" if "dn = today - ?m"
      using that lo2 c p by (auto simp add: algebra_simps)
    have outside: "p < cutoff" if "dn < today - ?m"
    proof -
      from that have "(dn + 1) * nsPerDay \<le> (today - ?m) * nsPerDay"
        by (intro mult_right_mono) (simp_all add: ns)
      with lo2 c p show ?thesis by (simp add: algebra_simps ns)
    qed
    have le: "dn \<le> today" if "dn \<le> today - ?m" using that m by simp
    show ?thesis
    proof (intro conjI impI)
      assume "today < dn"
      with fut general show future by blast
    next
      assume "today - ?m < dn \<and> dn \<le> today"
      with inside nofut general show accepted by blast
    next
      assume a: "dn = today - ?m"
      then have "p \<le> now1" using le nofut by simp
      moreover have "(cutoff \<le> p) = (now2 = today * nsPerDay)" using a by (rule edge)
      ultimately show "if now2 = today * nsPerDay then accepted else out_of_range"
        using general by (cases "now2 = today * nsPerDay") auto
    next
      assume a: "dn < today - ?m"
      then have "p \<le> now1" using le nofut by simp
      moreover have "p < cutoff" using a by (rule outside)
      ultimately show out_of_range using general by blast
    qed
  qed
  from general special show ?thesis by blast
qed

text \<open>The dates and the clocks of the examples, as day numbers.\<close>

lemma parse_eval:
  "time_Parse ''2025-08-16'' = Some (20316 * nsPerDay)"
  "time_Parse ''2025-08-15'' = Some (20315 * nsPerDay)"
  "time_Parse ''2025-05-18'' = Some (20226 * nsPerDay)"
  "time_Parse ''2025-05-17'' = Some (20225 * nsPerDay)"
  "time_Parse ''2025-05-16'' = Some (20224 * nsPerDay)"
  by (simp_all add: time_Parse_def isDigit_def digitVal_def daysIn_def isLeap_def
      daysSinceEpoch_def)

lemma clock_eval:
  "20315 * nsPerDay \<le> clock example_env n" "clock example_env n < (20315 + 1) * nsPerDay"
  "clock example_env n \<noteq> 20315 * nsPerDay"
  "20315 * nsPerDay \<le> clock midnight_env n" "clock midnight_env n < (20315 + 1) * nsPerDay"
  "clock midnight_env n = 20315 * nsPerDay"
  "MaxHistoricalDays example_env = 90" "MaxHistoricalDays midnight_env = 90"
  by (simp_all add: example_env_def midnight_env_def noon_2025_08_15_def nsPerDay_def
      MaxAllowedHistoryDays_def)

lemma cutoff_eval:
  "AddDate example_env t 0 0 (neg_int64 (MaxHistoricalDays example_env))
     = t - MaxHistoricalDays example_env * nsPerDay"
  "AddDate midnight_env t 0 0 (neg_int64 (MaxHistoricalDays midnight_env))
     = t - MaxHistoricalDays midnight_env * nsPerDay"
  by (simp_all add: example_env_def midnight_env_def neg_int64_def MaxAllowedHistoryDays_def)

lemma fetch_eval:
  "RateClient_GetRate example_env (NewWorld\<lparr>ticks := Suc (Suc (ticks NewWorld))\<rparr>) ''USD'' ''EUR'' d
     = (Inr (86 / 100),
        \<lparr>rateData = Map.empty, ticks = 2, requests = 1,
         trace = [ClientGetRate ''USD'' ''EUR'' d, HttpGet ''/k/pair/USD/EUR/1'']\<rparr>)"
  "RateClient_GetRate midnight_env (NewWorld\<lparr>ticks := Suc (Suc (ticks NewWorld))\<rparr>) ''USD'' ''EUR'' d
     = (Inr (86 / 100),
        \<lparr>rateData = Map.empty, ticks = 2, requests = 1,
         trace = [ClientGetRate ''USD'' ''EUR'' d, HttpGet ''/k/pair/USD/EUR/1'']\<rparr>)"
  by (simp_all add: world_eval midnight_env_def Let_def)

theorem historical_date_window_witness:
  "fst (GetHistoricalExchangeRate example_env NewWorld ''USD'' ''EUR'' ''2025-08-16'')
     = Inl (FutureDate ''2025-08-16'')
   \<and> fst (GetHistoricalExchangeRate example_env NewWorld ''USD'' ''EUR'' ''2025-08-15'')
     = Inr (86 / 100)
   \<and> fst (GetHistoricalExchangeRate example_env NewWorld ''USD'' ''EUR'' ''2025-05-18'')
     = Inr (86 / 100)
   \<and> fst (GetHistoricalExchangeRate midnight_env NewWorld ''USD'' ''EUR'' ''2025-05-17'')
     = Inr (86 / 100)
   \<and> fst (GetHistoricalExchangeRate example_env NewWorld ''USD'' ''EUR'' ''2025-05-17'')
     = Inl (DateTooFarInPast 90)
   \<and> fst (GetHistoricalExchangeRate example_env NewWorld ''USD'' ''EUR'' ''2025-05-16'')
     = Inl (DateTooFarInPast 90)"
proof -
  have ne: "''USD'' \<noteq> ''EUR''" by simp
  have m: "(0::int) \<le> MaxHistoricalDays example_env" "(0::int) \<le> MaxHistoricalDays midnight_env"
    by (simp_all add: clock_eval)
  note noon = historical_date_window [OF supported_eval(1) supported_eval(2) ne,
      of _ _ example_env NewWorld _ 20315]
  note midn = historical_date_window [OF supported_eval(1) supported_eval(2) ne,
      of _ _ midnight_env NewWorld _ 20315]
  have a: "fst (GetHistoricalExchangeRate example_env NewWorld ''USD'' ''EUR'' ''2025-08-16'')
     = Inl (FutureDate ''2025-08-16'')"
    using noon [OF parse_eval(1), of 20316] clock_eval(1,2) cutoff_eval(1) m(1) by simp
  have b: "fst (GetHistoricalExchangeRate example_env NewWorld ''USD'' ''EUR'' ''2025-08-15'')
     = Inr (86 / 100)"
    using noon [OF parse_eval(2), of 20315] clock_eval(1,2) cutoff_eval(1) m(1)
    by (simp add: clock_eval(7) fetch_eval)
  have c: "fst (GetHistoricalExchangeRate example_env NewWorld ''USD'' ''EUR'' ''2025-05-18'')
     = Inr (86 / 100)"
    using noon [OF parse_eval(3), of 20226] clock_eval(1,2) cutoff_eval(1) m(1)
    by (simp add: clock_eval(7) fetch_eval)
  have d: "fst (GetHistoricalExchangeRate midnight_env NewWorld ''USD'' ''EUR'' ''2025-05-17'')
     = Inr (86 / 100)"
    using midn [OF parse_eval(4), of 20225] clock_eval(4,5,6) cutoff_eval(2) m(2)
    by (simp add: clock_eval(8) fetch_eval)
  have e: "fst (GetHistoricalExchangeRate example_env NewWorld ''USD'' ''EUR'' ''2025-05-17'')
     = Inl (DateTooFarInPast 90)"
    using noon [OF parse_eval(4), of 20225] clock_eval(1,2,3) cutoff_eval(1) m(1)
    by (simp add: clock_eval(7))
  have f: "fst (GetHistoricalExchangeRate example_env NewWorld ''USD'' ''EUR'' ''2025-05-16'')
     = Inl (DateTooFarInPast 90)"
    using noon [OF parse_eval(5), of 20224] clock_eval(1,2) cutoff_eval(1) m(1)
    by (simp add: clock_eval(7))
  from a b c d e f show ?thesis by simp
qed

text \<open>
  With the clock at noon of 2025-08-15 in UTC and a look-back of 90 days, the date
  2025-05-17, which is 90 days before 2025-08-15, is refused.
\<close>

theorem lookback_boundary_date_refused:
  "MaxHistoricalDays example_env = 90
   \<and> map_option (\<lambda>p. p + 90 * nsPerDay) (time_Parse ''2025-05-17'') = time_Parse ''2025-08-15''
   \<and> fst (GetHistoricalExchangeRate example_env NewWorld ''USD'' ''EUR'' ''2025-08-15'')
       = Inr (86 / 100)
   \<and> fst (GetHistoricalExchangeRate example_env NewWorld ''USD'' ''EUR'' ''2025-05-17'')
       = Inl (DateTooFarInPast 90)"
proof -
  have ne: "''USD'' \<noteq> ''EUR''" by simp
  note eq = GetHistoricalExchangeRate_parsed [OF supported_eval(1) supported_eval(2) ne,
      of _ _ example_env NewWorld]
  show ?thesis
    unfolding eq [OF parse_eval(2)] eq [OF parse_eval(4)] parse_eval cutoff_eval
    using clock_eval(1-3) [of 0] clock_eval(1-3) [of 1]
    by (simp add: clock_eval(7) fetch_eval) (simp add: nsPerDay_def NewWorld_def)
qed

section \<open>The refresh sweep\<close>

lemma doAPICall_api_answer: "fst (doAPICall e w f t d) = api_answer e (requests w) f t"
  unfolding api_answer_def by (rule doAPICall_fst_requests) simp

lemma api_answer_positive: "api_answer e n f t = Inr r \<Longrightarrow> 0 < r"
  by (simp add: api_answer_def doAPICall_result)

text \<open>What one call of the rate client did, in terms of the answers to its API calls.\<close>

lemma RateClient_GetRate_answers:
  assumes "RateClient_GetRate e w f t d = (res, w')"
  shows "(\<exists>r. res = Inr r \<and> (\<exists>n \<in> {requests w ..< requests w'}. api_answer e n f t = Inr r))
       \<or> (isl res \<and> requests w' = Suc (Suc (requests w))
           \<and> isl (api_answer e (requests w) f t) \<and> isl (api_answer e (Suc (requests w)) f t))"
proof -
  have r: "res = fst (RateClient_GetRate e w f t d)"
    and q: "requests w' = requests (snd (RateClient_GetRate e w f t d))"
    using assms by simp_all
  have a2: "fst (doAPICall e (w\<lparr>requests := Suc (requests w)\<rparr>) f t d)
              = api_answer e (Suc (requests w)) f t"
    by (simp add: doAPICall_api_answer)
  show ?thesis
  proof (cases "api_answer e (requests w) f t")
    case (Inr x)
    then have "res = Inr x" "requests w' = Suc (requests w)"
      by (simp_all add: r q RateClient_GetRate_fst RateClient_GetRate_requests doAPICall_api_answer)
    with Inr show ?thesis by auto
  next
    case (Inl x)
    show ?thesis
    proof (cases "api_answer e (Suc (requests w)) f t")
      case (Inr y)
      with Inl have "res = Inr y" "requests w' = Suc (Suc (requests w))"
        by (simp_all add: r q RateClient_GetRate_fst RateClient_GetRate_requests
            doAPICall_api_answer a2)
      with Inr show ?thesis by auto
    next
      case Inl2: (Inl y)
      with Inl have "isl res" "requests w' = Suc (Suc (requests w))"
        by (simp_all add: r q RateClient_GetRate_fst RateClient_GetRate_requests
            doAPICall_api_answer a2)
      with Inl Inl2 show ?thesis by simp
    qed
  qed
qed

lemma SetRate_rateData:
  "rateData (ExchangeRateCache_SetRate e w f t r) k
     = (if k = buildRateKey f t
        then Some \<lparr>exchangeRate = r, lastUpdated = clock e (ticks w)\<rparr>
        else rateData w k)"
  and SetRate_requests: "requests (ExchangeRateCache_SetRate e w f t r) = requests w"
  by (simp_all add: ExchangeRateCache_SetRate_def time_Now_def Let_def)

text \<open>One iteration of the sweep: it either fails or succeeds for its pair.\<close>

lemma refresh_pair_step:
  fixes e st f t
  defines "st' \<equiv> refresh_pair e f t st"
  shows "totalPairs st' = Suc (totalPairs st)
     \<and> requests (sw_world st) \<le> requests (sw_world st')
     \<and> (\<forall>k. k \<noteq> buildRateKey f t \<longrightarrow> rateData (sw_world st') k = rateData (sw_world st) k)
     \<and> ((failedPairs st' = failedPairs st @ [f @ ''-'' @ t]
          \<and> successfulUpdates st' = successfulUpdates st
          \<and> rateData (sw_world st') = rateData (sw_world st)
          \<and> requests (sw_world st') = Suc (Suc (requests (sw_world st)))
          \<and> isl (api_answer e (requests (sw_world st)) f t)
          \<and> isl (api_answer e (Suc (requests (sw_world st))) f t)
          \<and> isl (fst (RateClient_GetRate e (sw_world st) f t [])))
        \<or> (failedPairs st' = failedPairs st
          \<and> successfulUpdates st' = Suc (successfulUpdates st)
          \<and> \<not> isl (fst (RateClient_GetRate e (sw_world st) f t []))
          \<and> (\<exists>entry. rateData (sw_world st') (buildRateKey f t) = Some entry
                \<and> (\<exists>n \<in> {requests (sw_world st) ..< requests (sw_world st')}.
                      api_answer e n f t = Inr (exchangeRate entry)))))"
proof -
  obtain res w' where g: "RateClient_GetRate e (sw_world st) f t [] = (res, w')"
    by (cases "RateClient_GetRate e (sw_world st) f t []")
  note fr = RateClient_GetRate_frame [OF g]
  show ?thesis
  proof (cases res)
    case (Inl er)
    then have st': "st' = st\<lparr>sw_world := w', totalPairs := Suc (totalPairs st),
                failedPairs := failedPairs st @ [f @ ''-'' @ t]\<rparr>"
      using g by (simp add: st'_def refresh_pair_def)
    from RateClient_GetRate_answers [OF g] Inl
    have "requests w' = Suc (Suc (requests (sw_world st)))"
      "isl (api_answer e (requests (sw_world st)) f t)"
      "isl (api_answer e (Suc (requests (sw_world st))) f t)"
      by auto
    then show ?thesis using st' fr(1) g Inl by simp
  next
    case (Inr rate)
    then have st': "st' = st\<lparr>sw_world := ExchangeRateCache_SetRate e w' f t rate,
                totalPairs := Suc (totalPairs st),
                successfulUpdates := Suc (successfulUpdates st)\<rparr>"
      using g by (simp add: st'_def refresh_pair_def)
    from RateClient_GetRate_answers [OF g] Inr
    obtain n where n: "n \<in> {requests (sw_world st) ..< requests w'}"
      "api_answer e n f t = Inr rate"
      by auto
    have "\<exists>entry. rateData (sw_world st') (buildRateKey f t) = Some entry
                \<and> (\<exists>n \<in> {requests (sw_world st) ..< requests (sw_world st')}.
                      api_answer e n f t = Inr (exchangeRate entry))"
      using n by (simp add: st' SetRate_rateData SetRate_requests) force
    then show ?thesis
      using fr(1) fr(3) g Inr by (simp add: st' SetRate_rateData SetRate_requests)
  qed
qed


lemma refresh_inner_fold:
  "refresh_inner e i f jts st
     = foldl (\<lambda>s p. refresh_pair e (fst p) (snd p) s) st
         (map (\<lambda>jt. (f, snd jt)) (filter (\<lambda>jt. i \<noteq> fst jt) jts))"
  by (induction jts arbitrary: st) auto

lemma refresh_outer_fold:
  "refresh_outer e cs ifs st
     = foldl (\<lambda>s p. refresh_pair e (fst p) (snd p) s) st
         (concat (map (\<lambda>ifc. map (\<lambda>jt. (snd ifc, snd jt))
                                (filter (\<lambda>jt. fst ifc \<noteq> fst jt) (enumerate 0 cs))) ifs))"
  by (induction ifs arbitrary: st) (simp_all add: refresh_inner_fold)

lemma refreshAllRates_fold:
  "refreshAllRates e w
     = foldl (\<lambda>s p. refresh_pair e (fst p) (snd p) s)
         \<lparr>sw_world = w, successfulUpdates = 0, totalPairs = 0, failedPairs = []\<rparr>
         (sweep_pairs SupportedCurrencyList)"
  by (simp add: refreshAllRates_def GetSupportedCurrencies_def refresh_outer_fold sweep_pairs_def)









section \<open>The entries of the cache table\<close>

lemma fetched_since_refl: "fetched_since e w w"
  by (simp add: fetched_since_def)

lemma fetched_since_same_table:
  "rateData w' = rateData w \<Longrightarrow> requests w \<le> requests w' \<Longrightarrow> fetched_since e w w'"
  by (simp add: fetched_since_def)

lemma fetched_since_trans:
  assumes "fetched_since e w1 w2" and "fetched_since e w2 w3"
  shows "fetched_since e w1 w3"
  unfolding fetched_since_def
proof (intro conjI allI impI)
  show "requests w1 \<le> requests w3"
    using assms by (simp add: fetched_since_def)
next
  fix k entry assume a: "rateData w3 k = Some entry"
  have le12: "requests w1 \<le> requests w2" and le23: "requests w2 \<le> requests w3"
    using assms by (simp_all add: fetched_since_def)
  from assms(2) a consider (old) "rateData w2 k = Some entry"
    | (new) n f t where "requests w2 \<le> n" "n < requests w3" "k = buildRateKey f t"
        "api_answer e n f t = Inr (exchangeRate entry)"
    unfolding fetched_since_def by blast
  then show "rateData w1 k = Some entry
      \<or> (\<exists>n. requests w1 \<le> n \<and> n < requests w3
            \<and> (\<exists>f t. k = buildRateKey f t \<and> api_answer e n f t = Inr (exchangeRate entry)))"
  proof cases
    case old
    with assms(1) consider "rateData w1 k = Some entry"
      | n f t where "requests w1 \<le> n" "n < requests w2" "k = buildRateKey f t"
          "api_answer e n f t = Inr (exchangeRate entry)"
      unfolding fetched_since_def by blast
    then show ?thesis
    proof cases
      case 1
      then show ?thesis by simp
    next
      case (2 n f t)
      with le23 have "requests w1 \<le> n \<and> n < requests w3" by simp
      with 2 show ?thesis by blast
    qed
  next
    case (new n f t)
    with le12 have "requests w1 \<le> n \<and> n < requests w3" by simp
    with new show ?thesis by blast
  qed
qed

lemma fetched_since_SetRate:
  assumes "RateClient_GetRate e w f t d = (Inr rate, w')"
  shows "fetched_since e w (ExchangeRateCache_SetRate e w' f t rate)"
proof -
  note fr = RateClient_GetRate_frame [OF assms]
  from RateClient_GetRate_answers [OF assms]
  obtain n where n: "requests w \<le> n" "n < requests w'" "api_answer e n f t = Inr rate"
    by auto
  show ?thesis
    unfolding fetched_since_def
  proof (intro conjI allI impI)
    show "requests w \<le> requests (ExchangeRateCache_SetRate e w' f t rate)"
      using fr(3) by (simp add: SetRate_requests)
  next
    fix k entry
    assume a: "rateData (ExchangeRateCache_SetRate e w' f t rate) k = Some entry"
    show "rateData w k = Some entry
      \<or> (\<exists>n. requests w \<le> n \<and> n < requests (ExchangeRateCache_SetRate e w' f t rate)
            \<and> (\<exists>f t. k = buildRateKey f t \<and> api_answer e n f t = Inr (exchangeRate entry)))"
    proof (cases "k = buildRateKey f t")
      case True
      with a have "exchangeRate entry = rate"
        by (auto simp add: SetRate_rateData)
      with n True show ?thesis
        by (auto simp add: SetRate_requests)
    next
      case False
      with a fr(1) show ?thesis by (simp add: SetRate_rateData)
    qed
  qed
qed

lemma getExchangeRateForPair_fetched:
  "fetched_since e w (snd (getExchangeRateForPair e w f t d))"
  and getExchangeRateForPair_failure:
  "isl (fst (getExchangeRateForPair e w f t d)) \<Longrightarrow>
     rateData (snd (getExchangeRateForPair e w f t d)) = rateData w"
proof -
  have "fetched_since e w (snd (getExchangeRateForPair e w f t d))
      \<and> (isl (fst (getExchangeRateForPair e w f t d)) \<longrightarrow>
           rateData (snd (getExchangeRateForPair e w f t d)) = rateData w)"
  proof (cases "d = []")
    case True
    let ?w1 = "w\<lparr>trace := trace w @ [CacheRead (buildRateKey f t)]\<rparr>"
    show ?thesis
    proof (cases "rateData w (buildRateKey f t)")
      case (Some entry)
      then show ?thesis
        using True by (simp add: getExchangeRateForPair_hit fetched_since_same_table)
    next
      case None
      obtain res w2 where g: "RateClient_GetRate e ?w1 f t [] = (res, w2)"
        by (cases "RateClient_GetRate e ?w1 f t []")
      note fr = RateClient_GetRate_frame [OF g]
      show ?thesis
      proof (cases res)
        case (Inl er)
        then have "getExchangeRateForPair e w f t [] = (Inl er, w2)"
          using None g by (simp add: getExchangeRateForPair_miss)
        then show ?thesis
          using True fr(1) fr(3) by (simp add: fetched_since_same_table)
      next
        case (Inr rate)
        then have eq: "getExchangeRateForPair e w f t []
            = (Inr rate, ExchangeRateCache_SetRate e w2 f t rate)"
          using None g by (simp add: getExchangeRateForPair_miss)
        have "fetched_since e ?w1 (ExchangeRateCache_SetRate e w2 f t rate)"
          using g Inr by (intro fetched_since_SetRate) simp
        then have "fetched_since e w (ExchangeRateCache_SetRate e w2 f t rate)"
          by (simp add: fetched_since_def)
        then show ?thesis using True eq by simp
      qed
    qed
  next
    case False
    obtain r1 w1 where a1: "validateAndParseDate e w d = (r1, w1)"
      by (cases "validateAndParseDate e w d")
    note f1 = validateAndParseDate_frame [OF a1]
    show ?thesis
    proof (cases r1)
      case (Inl er)
      then have "getExchangeRateForPair e w f t d = (Inl er, w1)"
        using False a1 by (simp add: getExchangeRateForPair_def)
      then show ?thesis using f1 by (simp add: fetched_since_same_table)
    next
      case (Inr p)
      obtain r2 w2 where a2: "validateHistoricalRange e w1 p = (r2, w2)"
        by (cases "validateHistoricalRange e w1 p")
      note f2 = validateHistoricalRange_frame [OF a2]
      show ?thesis
      proof (cases r2)
        case (Some er)
        then have "getExchangeRateForPair e w f t d = (Inl er, w2)"
          using False a1 Inr a2 by (simp add: getExchangeRateForPair_def)
        then show ?thesis using f1 f2 by (simp add: fetched_since_same_table)
      next
        case None
        obtain r3 w3 where a3: "RateClient_GetRate e w2 f t d = (r3, w3)"
          by (cases "RateClient_GetRate e w2 f t d")
        note f3 = RateClient_GetRate_frame [OF a3]
        have "getExchangeRateForPair e w f t d = (r3, w3)"
          using False a1 Inr a2 None a3 by (simp add: getExchangeRateForPair_def)
        then show ?thesis
          using f1 f2 f3(1) f3(3) by (simp add: fetched_since_same_table)
      qed
    qed
  qed
  then show "fetched_since e w (snd (getExchangeRateForPair e w f t d))"
    and "isl (fst (getExchangeRateForPair e w f t d)) \<Longrightarrow>
     rateData (snd (getExchangeRateForPair e w f t d)) = rateData w"
    by simp_all
qed

lemma ConvertCurrencyAmount_fetched:
  "fetched_since e w (snd (ConvertCurrencyAmount e w f t amt dt))"
  and ConvertCurrencyAmount_failure:
  "isl (fst (ConvertCurrencyAmount e w f t amt dt)) \<Longrightarrow>
     rateData (snd (ConvertCurrencyAmount e w f t amt dt)) = rateData w"
  using getExchangeRateForPair_fetched [of e w f t dt]
    getExchangeRateForPair_failure [of e w f t dt]
  by (auto simp add: ConvertCurrencyAmount_def fetched_since_refl
      split: option.splits prod.splits sum.splits)

lemma GetHistoricalExchangeRate_fetched:
  "fetched_since e w (snd (GetHistoricalExchangeRate e w f t d))"
proof (rule fetched_since_same_table)
  show "rateData (snd (GetHistoricalExchangeRate e w f t d)) = rateData w"
    using GetHistoricalExchangeRate_frame [of e w f t d] by simp
  show "requests w \<le> requests (snd (GetHistoricalExchangeRate e w f t d))"
  proof (cases rule: GetHistoricalExchangeRate_cases [of e w f t d])
    case (stopped er w')
    then show ?thesis by simp
  next
    case (fetched w2 r3 w3)
    then show ?thesis using RateClient_GetRate_frame(3) [OF fetched(1)] by simp
  qed
qed

lemma refresh_pair_fetched:
  "fetched_since e (sw_world st) (sw_world (refresh_pair e f t st))"
proof -
  obtain res w' where g: "RateClient_GetRate e (sw_world st) f t [] = (res, w')"
    by (cases "RateClient_GetRate e (sw_world st) f t []")
  note fr = RateClient_GetRate_frame [OF g]
  show ?thesis
  proof (cases res)
    case (Inl er)
    then have "sw_world (refresh_pair e f t st) = w'"
      using g by (simp add: refresh_pair_def)
    then show ?thesis using fr(1) fr(3) by (simp add: fetched_since_same_table)
  next
    case (Inr rate)
    then have "sw_world (refresh_pair e f t st) = ExchangeRateCache_SetRate e w' f t rate"
      using g by (simp add: refresh_pair_def)
    then show ?thesis using fetched_since_SetRate [of e "sw_world st" f t "[]" rate w'] g Inr
      by simp
  qed
qed

lemma refresh_pair_failure:
  "isl (fst (RateClient_GetRate e (sw_world st) f t [])) \<Longrightarrow>
   rateData (sw_world (refresh_pair e f t st)) = rateData (sw_world st)"
  using refresh_pair_step [of e f t st] by auto

lemma sweep_fetched:
  "fetched_since e (sw_world st)
     (sw_world (foldl (\<lambda>s p. refresh_pair e (fst p) (snd p) s) st ps))"
proof (induction ps rule: rev_induct)
  case Nil
  show ?case by (simp add: fetched_since_refl)
next
  case (snoc p ps)
  show ?case
    using fetched_since_trans [OF snoc refresh_pair_fetched] by simp
qed

lemma refreshAllRates_fetched:
  "fetched_since e w (sw_world (refreshAllRates e w))"
  using sweep_fetched [of e "\<lparr>sw_world = w, successfulUpdates = 0, totalPairs = 0, failedPairs = []\<rparr>"]
  by (simp add: refreshAllRates_fold)

lemma serve_fetched: "fetched_since e w (serve e w x)"
  by (cases x) (simp_all add: ConvertCurrencyAmount_fetched GetHistoricalExchangeRate_fetched
      refreshAllRates_fetched)

lemma run_fetched: "fetched_since e NewWorld (run e ops)"
  unfolding run_def
proof (induction ops rule: rev_induct)
  case Nil
  show ?case by (simp add: fetched_since_refl)
next
  case (snoc x xs)
  show ?case
    using fetched_since_trans [OF snoc serve_fetched] by simp
qed

lemma api_answer_success:
  "(api_answer e n f t = Inr r)
     = (transport e n (buildEndpoint e f t []) = Response 200 (ApiResp ''success'' r) \<and> 0 < r)"
  by (simp add: api_answer_def doAPICall_result)

text \<open>
  Claim C8. In every state that the operations of the core reach from the empty table
  (conversions, historical lookups and refresh sweeps, in any order), every entry of the
  cache table holds a positive rate, and that rate is the answer of an API call of the run
  for a pair with the entry's key. A conversion that fails, every historical lookup, and
  an iteration of the sweep whose fetch fails leave the table as it is. An API call
  answers with a rate only for a response with status 200, result \<open>success\<close> and a
  positive conversion rate.
\<close>

theorem cache_entries_from_successful_fetches:
  "(\<forall>k entry. rateData (run e ops) k = Some entry \<longrightarrow>
       0 < exchangeRate entry
       \<and> (\<exists>n < requests (run e ops). \<exists>f t.
             k = buildRateKey f t \<and> api_answer e n f t = Inr (exchangeRate entry)))
   \<and> (\<forall>w f t amt dt. isl (fst (ConvertCurrencyAmount e w f t amt dt)) \<longrightarrow>
         rateData (snd (ConvertCurrencyAmount e w f t amt dt)) = rateData w)
   \<and> (\<forall>w f t d. rateData (snd (GetHistoricalExchangeRate e w f t d)) = rateData w)
   \<and> (\<forall>st f t. isl (fst (RateClient_GetRate e (sw_world st) f t [])) \<longrightarrow>
         rateData (sw_world (refresh_pair e f t st)) = rateData (sw_world st))
   \<and> (\<forall>n f t r. api_answer e n f t = Inr r \<longrightarrow>
         0 < r \<and> transport e n (buildEndpoint e f t []) = Response 200 (ApiResp ''success'' r))"
proof (intro conjI allI impI)
  fix k entry assume a: "rateData (run e ops) k = Some entry"
  have "rateData NewWorld k = None" by (simp add: NewWorld_def)
  with run_fetched [of e ops] a obtain n f t where n:
    "n < requests (run e ops)" "k = buildRateKey f t"
    "api_answer e n f t = Inr (exchangeRate entry)"
    unfolding fetched_since_def by fastforce
  from n(3) show "0 < exchangeRate entry" by (rule api_answer_positive)
  from n show "\<exists>n < requests (run e ops). \<exists>f t.
             k = buildRateKey f t \<and> api_answer e n f t = Inr (exchangeRate entry)"
    by blast
next
  fix w f t amt dt assume "isl (fst (ConvertCurrencyAmount e w f t amt dt))"
  then show "rateData (snd (ConvertCurrencyAmount e w f t amt dt)) = rateData w"
    by (rule ConvertCurrencyAmount_failure)
next
  fix w f t d
  show "rateData (snd (GetHistoricalExchangeRate e w f t d)) = rateData w"
    using GetHistoricalExchangeRate_frame [of e w f t d] by simp
next
  fix st :: sweep and f t assume "isl (fst (RateClient_GetRate e (sw_world st) f t []))"
  then show "rateData (sw_world (refresh_pair e f t st)) = rateData (sw_world st)"
    by (rule refresh_pair_failure)
next
  fix n f t r assume a: "api_answer e n f t = Inr r"
  then show "0 < r" by (simp add: api_answer_success)
  from a show "transport e n (buildEndpoint e f t []) = Response 200 (ApiResp ''success'' r)"
    by (simp add: api_answer_success)
qed

theorem cache_entries_from_successful_fetches_witness:
  "rateData (run example_env [Convert ''USD'' ''EUR'' 100 []]) ''USD-EUR''
     = Some \<lparr>exchangeRate = 86 / 100, lastUpdated = noon_2025_08_15\<rparr>
   \<and> (\<exists>n < requests (run example_env [Convert ''USD'' ''EUR'' 100 []]). \<exists>f t.
         ''USD-EUR'' = buildRateKey f t \<and> api_answer example_env n f t = Inr (86 / 100))
   \<and> rateData (run example_env [Convert ''EUR'' ''USD'' 100 []]) = Map.empty"
proof -
  let ?w = "run example_env [Convert ''USD'' ''EUR'' 100 []]"
  let ?entry = "\<lparr>exchangeRate = 86 / 100, lastUpdated = noon_2025_08_15\<rparr>"
  have ev: "rateData ?w ''USD-EUR'' = Some ?entry"
    by (simp add: run_def ConvertCurrencyAmount_def validateCurrencyPair_def supported_eval
        getExchangeRateForPair_def world_eval str_eval Let_def)
  have fails: "isl (fst (ConvertCurrencyAmount example_env NewWorld ''EUR'' ''USD'' 100 []))"
    by (simp add: ConvertCurrencyAmount_def validateCurrencyPair_def supported_eval
        getExchangeRateForPair_def world_eval str_eval Let_def)
  note facts = cache_entries_from_successful_fetches
  from facts [of example_env "[Convert ''USD'' ''EUR'' 100 []]"] ev
  have "0 < exchangeRate ?entry
       \<and> (\<exists>n < requests ?w. \<exists>f t.
             ''USD-EUR'' = buildRateKey f t \<and> api_answer example_env n f t = Inr (exchangeRate ?entry))"
    by blast
  then have fetched: "\<exists>n < requests ?w. \<exists>f t.
         ''USD-EUR'' = buildRateKey f t \<and> api_answer example_env n f t = Inr (86 / 100)"
    by simp
  from facts [of example_env "[]"] fails
  have "rateData (snd (ConvertCurrencyAmount example_env NewWorld ''EUR'' ''USD'' 100 []))
      = rateData NewWorld"
    by blast
  then have empty: "rateData (run example_env [Convert ''EUR'' ''USD'' 100 []]) = Map.empty"
    by (simp add: run_def NewWorld_def)
  from ev fetched empty show ?thesis by simp
qed

end
